theory Spec2Isabelle
  imports Main "HOL-Library.Sublist"
begin

section \<open>Python values and exceptions\<close>

text \<open>
  The script \<^verbatim>\<open>dns_update.py\<close> handles only values that \<^verbatim>\<open>json.load\<close> and
  \<^verbatim>\<open>response.json()\<close> produce, and strings. \<open>pyval\<close> is the Python value of a parsed
  JSON document: \<open>PNone\<close> is \<^verbatim>\<open>None\<close> (JSON null, and the value \<^verbatim>\<open>dict.get\<close> gives for
  a missing key), a dict is an association list read with \<open>map_of\<close>. Fractional JSON
  numbers are left out: no operation of the script tells them from integers other than
  by truthiness.
\<close>

datatype pyval =
    PNone
  | PBool bool
  | PInt int
  | PStr string
  | PList "pyval list"
  | PDict "(string \<times> pyval) list"

text \<open>
  The exceptions that the script can meet. \<open>RequestException\<close> stands for every
  \<^verbatim>\<open>requests.RequestException\<close> (connection failure, timeout, a non-success status in
  \<^verbatim>\<open>raise_for_status\<close>, a body that is not JSON); \<open>Exception msg\<close> is the plain
  \<^verbatim>\<open>Exception(msg)\<close> the script raises itself; \<open>SystemExit c\<close> is what \<^verbatim>\<open>sys.exit(c)\<close>
  raises.
\<close>

datatype exn =
    RequestException
  | KeyError
  | IndexError
  | TypeError
  | AttributeError
  | OSError
  | Exception string
  | SystemExit int

text \<open>\<^verbatim>\<open>except Exception\<close> catches every exception but \<^verbatim>\<open>SystemExit\<close>, which derives
  from \<^verbatim>\<open>BaseException\<close> only.\<close>

fun is_Exception :: "exn \<Rightarrow> bool" where
  "is_Exception (SystemExit c) = False"
| "is_Exception e = True"

text \<open>Truth value of a Python object, as \<^verbatim>\<open>if x\<close> and \<^verbatim>\<open>x and y\<close> test it.\<close>

fun truthy :: "pyval \<Rightarrow> bool" where
  "truthy PNone = False"
| "truthy (PBool b) = b"
| "truthy (PInt n) = (n \<noteq> 0)"
| "truthy (PStr s) = (s \<noteq> [])"
| "truthy (PList xs) = (xs \<noteq> [])"
| "truthy (PDict kvs) = (kvs \<noteq> [])"

text \<open>\<^verbatim>\<open>data.get(k)\<close>: only a dict has the method.\<close>

fun dict_get :: "pyval \<Rightarrow> string \<Rightarrow> exn + pyval" where
  "dict_get (PDict kvs) k = Inr (case map_of kvs k of None \<Rightarrow> PNone | Some v \<Rightarrow> v)"
| "dict_get v k = Inl AttributeError"

text \<open>\<^verbatim>\<open>x[0]\<close>. The keys of a parsed JSON object are strings, so \<open>0\<close> is never one.\<close>

fun getitem_0 :: "pyval \<Rightarrow> exn + pyval" where
  "getitem_0 (PList []) = Inl IndexError"
| "getitem_0 (PList (x # xs)) = Inr x"
| "getitem_0 (PStr []) = Inl IndexError"
| "getitem_0 (PStr (c # cs)) = Inr (PStr [c])"
| "getitem_0 (PDict kvs) = Inl KeyError"
| "getitem_0 v = Inl TypeError"

text \<open>\<^verbatim>\<open>x['k']\<close> for a string key.\<close>

fun getitem :: "pyval \<Rightarrow> string \<Rightarrow> exn + pyval" where
  "getitem (PDict kvs) k = (case map_of kvs k of None \<Rightarrow> Inl KeyError | Some v \<Rightarrow> Inr v)"
| "getitem v k = Inl TypeError"

text \<open>\<^verbatim>\<open>k in x\<close> for a string \<open>k\<close>: key membership in a dict, element membership in a
  list, substring test in a string.\<close>

fun contains :: "pyval \<Rightarrow> string \<Rightarrow> exn + bool" where
  "contains (PDict kvs) k = Inr (k \<in> set (map fst kvs))"
| "contains (PList xs) k = Inr (PStr k \<in> set xs)"
| "contains (PStr s) k = Inr (sublist k s)"
| "contains v k = Inl TypeError"

text \<open>\<^verbatim>\<open>str.strip()\<close>: the characters Python counts as whitespace, below code point 256.\<close>

definition isspace :: "char \<Rightarrow> bool" where
  "isspace c = (c \<in> set [CHR 0x09, CHR 0x0A, CHR 0x0B, CHR 0x0C, CHR 0x0D,
     CHR 0x1C, CHR 0x1D, CHR 0x1E, CHR 0x1F, CHR 0x20, CHR 0x85, CHR 0xA0])"

definition strip :: "string \<Rightarrow> string" where
  "strip s = rev (dropWhile isspace (rev (dropWhile isspace s)))"


section \<open>The outside world and the observable effects\<close>

text \<open>
  The script reads one file and talks to three HTTP services. A \<open>world\<close> fixes what each
  of them answers during one reconciliation cycle, as a function of what the script
  sends. \<open>RequestFailed\<close> is any outcome on which \<^verbatim>\<open>requests\<close> raises a
  \<^verbatim>\<open>RequestException\<close>; \<open>Response x\<close> is a success status with body \<open>x\<close> (the text for
  the IP service, the parsed JSON for the others).
\<close>

datatype 'a http = RequestFailed | Response 'a

datatype config_source =
    NoFile
  | Unreadable
  | InvalidJson
  | Parsed pyval

record world =
  config_file :: config_source
  checkip :: "string http"
  dns_query :: "pyval \<Rightarrow> pyval http"
  zones_api :: "pyval \<Rightarrow> pyval \<Rightarrow> pyval \<Rightarrow> pyval http"
  records_api :: "pyval \<Rightarrow> pyval \<Rightarrow> pyval \<Rightarrow> pyval \<Rightarrow> pyval http"
  update_api :: "pyval \<Rightarrow> pyval \<Rightarrow> pyval \<Rightarrow> pyval \<Rightarrow> pyval \<Rightarrow> pyval http"

text \<open>
  What a run does is recorded as a list of events, in order: every log call (its level
  and its message template, placeholders not filled in), every file access and every
  HTTP request with the arguments that determine it.
  \<^item> \<open>GetExternalIP\<close>: \<^verbatim>\<open>GET https://checkip.amazonaws.com\<close>;
  \<^item> \<open>DnsQuery name\<close>: \<^verbatim>\<open>GET https://1.1.1.1/dns-query?name=..&type=A\<close>;
  \<^item> \<open>ZonesGet zone email key\<close>: the provider's zone listing;
  \<^item> \<open>RecordsGet zone_id name email key\<close>: the provider's record listing;
  \<^item> \<open>RecordPut zone_id record_id payload email key\<close>: the provider's record replace.
\<close>

datatype level = DEBUG | INFO | SUCCESS | WARNING | ERROR

datatype event =
    Log level string
  | FileExists string
  | FileOpen string
  | GetExternalIP
  | DnsQuery pyval
  | ZonesGet pyval pyval pyval
  | RecordsGet pyval pyval pyval pyval
  | RecordPut pyval pyval pyval pyval pyval

fun is_provider_call :: "event \<Rightarrow> bool" where
  "is_provider_call (ZonesGet z e k) = True"
| "is_provider_call (RecordsGet zi n e k) = True"
| "is_provider_call (RecordPut zi ri p e k) = True"
| "is_provider_call ev = False"

fun is_update :: "event \<Rightarrow> bool" where
  "is_update (RecordPut zi ri p e k) = True"
| "is_update ev = False"

fun is_record_lookup :: "event \<Rightarrow> bool" where
  "is_record_lookup (RecordsGet zi n e k) = True"
| "is_record_lookup ev = False"

fun is_dns_lookup :: "event \<Rightarrow> bool" where
  "is_dns_lookup (DnsQuery n) = True"
| "is_dns_lookup ev = False"

fun is_load :: "event \<Rightarrow> bool" where
  "is_load (FileExists p) = True"
| "is_load ev = False"

text \<open>A computation gives the events it caused and either the exception it raised or
  the value it returned.\<close>

type_synonym 'a io = "event list \<times> (exn + 'a)"

definition bind :: "'a io \<Rightarrow> ('a \<Rightarrow> 'b io) \<Rightarrow> 'b io" where
  "bind m f =
     (case m of
        (t, Inl e) \<Rightarrow> (t, Inl e)
      | (t, Inr x) \<Rightarrow> (case f x of (t', r) \<Rightarrow> (t @ t', r)))"

definition log :: "level \<Rightarrow> string \<Rightarrow> unit io" where
  "log l msg = ([Log l msg], Inr ())"

definition pure :: "exn + 'a \<Rightarrow> 'a io" where
  "pure r = ([], r)"

text \<open>\<^verbatim>\<open>try: m  except Exception as e: h e\<close>\<close>

definition except_Exception :: "'a io \<Rightarrow> (exn \<Rightarrow> 'a io) \<Rightarrow> 'a io" where
  "except_Exception m h =
     (case m of
        (t, Inl e) \<Rightarrow>
          (if is_Exception e then (case h e of (t', r) \<Rightarrow> (t @ t', r)) else (t, Inl e))
      | (t, Inr x) \<Rightarrow> (t, Inr x))"


section \<open>The functions of dns_update.py\<close>

subsection \<open>load_config\<close>

definition config_path :: string where
  "config_path = ''config/config.json''"

definition required_fields :: "string list" where
  "required_fields = [''zone'', ''dnsrecord'', ''cloudflare_auth_email'', ''cloudflare_auth_key'']"

text \<open>\<^verbatim>\<open>[field for field in required_fields if field not in config]\<close>\<close>

fun missing_fields :: "pyval \<Rightarrow> string list \<Rightarrow> exn + string list" where
  "missing_fields config [] = Inr []"
| "missing_fields config (field # rest) =
     (case contains config field of
        Inl e \<Rightarrow> Inl e
      | Inr present \<Rightarrow>
          (case missing_fields config rest of
             Inl e \<Rightarrow> Inl e
           | Inr ms \<Rightarrow> Inr (if present then ms else field # ms)))"

definition load_config :: "world \<Rightarrow> pyval io" where
  "load_config w =
     (case config_file w of
        NoFile \<Rightarrow>
          ([FileExists config_path,
            Log ERROR ''Configuration file '{config_path}' not found'',
            Log INFO ''Please create a config.json file with the required parameters'',
            Log INFO ''See config.sample.json for an example''],
           Inl (SystemExit 1))
      | Unreadable \<Rightarrow>
          ([FileExists config_path, FileOpen config_path], Inl OSError)
      | InvalidJson \<Rightarrow>
          ([FileExists config_path, FileOpen config_path,
            Log ERROR ''Invalid JSON in configuration file: {e}''],
           Inl (SystemExit 1))
      | Parsed config \<Rightarrow>
          (case missing_fields config required_fields of
             Inl e \<Rightarrow> ([FileExists config_path, FileOpen config_path], Inl e)
           | Inr missing \<Rightarrow>
               (if missing \<noteq> [] then
                  ([FileExists config_path, FileOpen config_path,
                    Log ERROR ''Missing required fields in config: {', '.join(missing_fields)}''],
                   Inl (SystemExit 1))
                else
                  ([FileExists config_path, FileOpen config_path,
                    Log DEBUG ''Configuration loaded successfully from {config_path}''],
                   Inr config))))"

subsection \<open>get_external_ip\<close>

definition get_external_ip :: "world \<Rightarrow> string io" where
  "get_external_ip w =
     (case checkip w of
        RequestFailed \<Rightarrow>
          ([Log DEBUG ''Fetching external IP address from checkip.amazonaws.com'',
            GetExternalIP,
            Log ERROR ''Error getting external IP: {e}''],
           Inl RequestException)
      | Response text \<Rightarrow>
          ([Log DEBUG ''Fetching external IP address from checkip.amazonaws.com'',
            GetExternalIP,
            Log DEBUG ''External IP retrieved: {ip}''],
           Inr (strip text)))"

subsection \<open>get_cloudflare_dns_ip\<close>

definition get_cloudflare_dns_ip :: "world \<Rightarrow> pyval \<Rightarrow> pyval io" where
  "get_cloudflare_dns_ip w dnsrecord =
     (let sent = [Log DEBUG ''Querying Cloudflare DNS for {dnsrecord}'', DnsQuery dnsrecord] in
      case dns_query w dnsrecord of
        RequestFailed \<Rightarrow>
          (sent @ [Log WARNING ''Could not query DNS via Cloudflare API: {e}''], Inr PNone)
      | Response data \<Rightarrow>
          (case dict_get data ''Answer'' of
             Inl e \<Rightarrow> (sent, Inl e)
           | Inr answer \<Rightarrow>
               (if truthy answer then
                  (case getitem_0 answer of
                     Inl e \<Rightarrow> (sent, Inl e)
                   | Inr first \<Rightarrow>
                       (case getitem first ''data'' of
                          Inl e \<Rightarrow> (sent, Inl e)
                        | Inr ip \<Rightarrow> (sent @ [Log DEBUG ''Cloudflare DNS returned: {ip}''], Inr ip)))
                else
                  (sent @ [Log DEBUG ''No DNS record found for {dnsrecord}''], Inr PNone))))"

subsection \<open>get_zone_id\<close>

definition get_zone_id :: "world \<Rightarrow> pyval \<Rightarrow> pyval \<Rightarrow> pyval \<Rightarrow> pyval io" where
  "get_zone_id w zone auth_email auth_key =
     (let sent = [Log DEBUG ''Fetching zone ID for {zone}'', ZonesGet zone auth_email auth_key] in
      case zones_api w zone auth_email auth_key of
        RequestFailed \<Rightarrow> (sent @ [Log ERROR ''Error getting zone ID: {e}''], Inl RequestException)
      | Response data \<Rightarrow>
          (case dict_get data ''success'' of
             Inl e \<Rightarrow> (sent, Inl e)
           | Inr success \<Rightarrow>
               (if \<not> truthy success then
                  (sent @ [Log ERROR ''Cloudflare API returned error: {data.get('errors')}''],
                   Inl (Exception ''Cloudflare API error: {data.get('errors')}''))
                else
                  (case dict_get data ''result'' of
                     Inl e \<Rightarrow> (sent, Inl e)
                   | Inr result \<Rightarrow>
                       (if \<not> truthy result then
                          (sent @ [Log ERROR ''Zone '{zone}' not found''],
                           Inl (Exception ''Zone '{zone}' not found''))
                        else
                          (case getitem_0 result of
                             Inl e \<Rightarrow> (sent, Inl e)
                           | Inr first \<Rightarrow>
                               (case getitem first ''id'' of
                                  Inl e \<Rightarrow> (sent, Inl e)
                                | Inr zone_id \<Rightarrow>
                                    (sent @ [Log DEBUG ''Zone ID for {zone}: {zone_id}''],
                                     Inr zone_id))))))))"

subsection \<open>get_dns_record_id\<close>

definition get_dns_record_id :: "world \<Rightarrow> pyval \<Rightarrow> pyval \<Rightarrow> pyval \<Rightarrow> pyval \<Rightarrow> pyval io" where
  "get_dns_record_id w zone_id dnsrecord auth_email auth_key =
     (let sent = [Log DEBUG ''Fetching DNS record ID for {dnsrecord}'',
                  RecordsGet zone_id dnsrecord auth_email auth_key] in
      case records_api w zone_id dnsrecord auth_email auth_key of
        RequestFailed \<Rightarrow>
          (sent @ [Log ERROR ''Error getting DNS record ID: {e}''], Inl RequestException)
      | Response data \<Rightarrow>
          (case dict_get data ''success'' of
             Inl e \<Rightarrow> (sent, Inl e)
           | Inr success \<Rightarrow>
               (if \<not> truthy success then
                  (sent @ [Log ERROR ''Cloudflare API returned error: {data.get('errors')}''],
                   Inl (Exception ''Cloudflare API error: {data.get('errors')}''))
                else
                  (case dict_get data ''result'' of
                     Inl e \<Rightarrow> (sent, Inl e)
                   | Inr result \<Rightarrow>
                       (if \<not> truthy result then
                          (sent @ [Log ERROR ''DNS record '{dnsrecord}' not found''],
                           Inl (Exception ''DNS record '{dnsrecord}' not found''))
                        else
                          (case getitem_0 result of
                             Inl e \<Rightarrow> (sent, Inl e)
                           | Inr first \<Rightarrow>
                               (case getitem first ''id'' of
                                  Inl e \<Rightarrow> (sent, Inl e)
                                | Inr record_id \<Rightarrow>
                                    (sent @ [Log DEBUG ''DNS record ID for {dnsrecord}: {record_id}''],
                                     Inr record_id))))))))"

subsection \<open>update_dns_record\<close>

text \<open>The body of the PUT request, the dict literal of the source.\<close>

definition payload :: "pyval \<Rightarrow> string \<Rightarrow> pyval" where
  "payload dnsrecord ip =
     PDict [(''type'', PStr ''A''),
            (''name'', dnsrecord),
            (''content'', PStr ip),
            (''ttl'', PInt 1),
            (''proxied'', PBool False)]"

definition update_dns_record ::
  "world \<Rightarrow> pyval \<Rightarrow> pyval \<Rightarrow> pyval \<Rightarrow> string \<Rightarrow> pyval \<Rightarrow> pyval \<Rightarrow> pyval io" where
  "update_dns_record w zone_id record_id dnsrecord ip auth_email auth_key =
     (let sent = [Log DEBUG ''Updating DNS record {dnsrecord} to {ip}'',
                  RecordPut zone_id record_id (payload dnsrecord ip) auth_email auth_key] in
      case update_api w zone_id record_id (payload dnsrecord ip) auth_email auth_key of
        RequestFailed \<Rightarrow>
          (sent @ [Log ERROR ''Error updating DNS record: {e}''], Inl RequestException)
      | Response data \<Rightarrow>
          (case dict_get data ''success'' of
             Inl e \<Rightarrow> (sent, Inl e)
           | Inr success \<Rightarrow>
               (if \<not> truthy success then
                  (sent @ [Log ERROR ''Failed to update DNS record: {data.get('errors')}''],
                   Inl (Exception ''Failed to update DNS record: {data.get('errors')}''))
                else
                  (sent @ [Log DEBUG ''DNS record updated successfully''], Inr data))))"

subsection \<open>check_and_update_dns\<close>

text \<open>The body of the \<^verbatim>\<open>try\<close> statement of \<^verbatim>\<open>check_and_update_dns\<close>.\<close>

definition try_update :: "world \<Rightarrow> pyval \<Rightarrow> pyval \<Rightarrow> pyval \<Rightarrow> pyval \<Rightarrow> unit io" where
  "try_update w zone dnsrecord auth_email auth_key =
     bind (get_external_ip w) (\<lambda>current_ip.
     bind (log INFO ''Current IP is {current_ip}'') (\<lambda>_.
     bind (get_cloudflare_dns_ip w dnsrecord) (\<lambda>cf_ip.
     bind (log INFO ''Cloudflare IP is {cf_ip}'') (\<lambda>_.
     if truthy cf_ip \<and> cf_ip = PStr current_ip then
       log SUCCESS ''{dnsrecord} is currently set to {current_ip}; no changes needed''
     else
       bind (log WARNING ''DNS record needs updating from {cf_ip} to {current_ip}'') (\<lambda>_.
       bind (get_zone_id w zone auth_email auth_key) (\<lambda>zone_id.
       bind (log INFO ''Zone ID for {zone} is {zone_id}'') (\<lambda>_.
       bind (get_dns_record_id w zone_id dnsrecord auth_email auth_key) (\<lambda>record_id.
       bind (log INFO ''DNS record ID for {dnsrecord} is {record_id}'') (\<lambda>_.
       bind (update_dns_record w zone_id record_id dnsrecord current_ip auth_email auth_key)
         (\<lambda>result.
       bind (log SUCCESS ''Successfully updated {dnsrecord} to {current_ip}'') (\<lambda>_.
       log DEBUG ''Response: {json.dumps(result, indent=2)}'')))))))))))"

definition check_and_update_dns :: "world \<Rightarrow> unit io" where
  "check_and_update_dns w =
     bind (load_config w) (\<lambda>config.
     bind (pure (getitem config ''zone'')) (\<lambda>zone.
     bind (pure (getitem config ''dnsrecord'')) (\<lambda>dnsrecord.
     bind (pure (getitem config ''cloudflare_auth_email'')) (\<lambda>auth_email.
     bind (pure (getitem config ''cloudflare_auth_key'')) (\<lambda>auth_key.
     bind (log INFO ''Starting DNS update check for {dnsrecord}'') (\<lambda>_.
     except_Exception (try_update w zone dnsrecord auth_email auth_key)
       (\<lambda>e. log ERROR ''Unexpected error during DNS update: {e}'')))))))"

subsection \<open>main\<close>

text \<open>
  The scheduler calls \<^verbatim>\<open>check_and_update_dns\<close> at every tick and lets whatever it raises
  through. The endless loop of \<^verbatim>\<open>main\<close> is followed for the ticks given, one world per
  tick: \<open>Inr ()\<close> says that the process is still running after the last of them, \<open>Inl e\<close>
  that it ended with \<open>e\<close>.
\<close>

fun run_pending :: "world list \<Rightarrow> unit io" where
  "run_pending [] = ([], Inr ())"
| "run_pending (w # ws) = bind (check_and_update_dns w) (\<lambda>_. run_pending ws)"

text \<open>\<open>main w ticks\<close>: \<open>w\<close> is the world at startup, in which the configuration is loaded
  and the first check runs; \<open>ticks\<close> are the worlds of the scheduled checks after it.\<close>

definition main :: "world \<Rightarrow> world list \<Rightarrow> unit io" where
  "main w ticks =
     bind (log INFO ''Logging initialized'') (\<lambda>_.
     bind (load_config w) (\<lambda>config.
     bind (pure (getitem config ''dnsrecord'')) (\<lambda>dnsrecord.
     bind (log INFO ''DNS Update Scheduler started for {_config['dnsrecord']}'') (\<lambda>_.
     bind (log INFO ''Running checks every 1 minute. Press Ctrl+C to stop.'') (\<lambda>_.
     bind (check_and_update_dns w) (\<lambda>_.
     run_pending ticks))))))"


section \<open>Notions used in the statements\<close>

text \<open>
  \<open>configured w zone dnsrecord auth_email auth_key\<close>: in the world \<open>w\<close> the call of
  \<^verbatim>\<open>load_config\<close> returns a configuration, and the four subscriptions at the head of
  \<^verbatim>\<open>check_and_update_dns\<close> read these four values from it.
\<close>

definition configured :: "world \<Rightarrow> pyval \<Rightarrow> pyval \<Rightarrow> pyval \<Rightarrow> pyval \<Rightarrow> bool" where
  "configured w zone dnsrecord auth_email auth_key =
     (case snd (load_config w) of
        Inl e \<Rightarrow> False
      | Inr config \<Rightarrow>
          getitem config ''zone'' = Inr zone \<and>
          getitem config ''dnsrecord'' = Inr dnsrecord \<and>
          getitem config ''cloudflare_auth_email'' = Inr auth_email \<and>
          getitem config ''cloudflare_auth_key'' = Inr auth_key)"

text \<open>The events of a cycle from the fetch of the external IP to the decision that
  the record has to be updated.\<close>

definition compared :: "world \<Rightarrow> pyval \<Rightarrow> string \<Rightarrow> event list" where
  "compared w dnsrecord current_ip =
     fst (get_external_ip w) @ Log INFO ''Current IP is {current_ip}'' #
     fst (get_cloudflare_dns_ip w dnsrecord) @
     [Log INFO ''Cloudflare IP is {cf_ip}'',
      Log WARNING ''DNS record needs updating from {cf_ip} to {current_ip}'']"

text \<open>What the \<^verbatim>\<open>except Exception\<close> clause of \<^verbatim>\<open>check_and_update_dns\<close> logs.\<close>

definition caught :: "exn + unit \<Rightarrow> event list" where
  "caught r =
     (case r of
        Inl x \<Rightarrow> [Log ERROR ''Unexpected error during DNS update: {e}'']
      | Inr u \<Rightarrow> [])"

text \<open>
  Concrete worlds for the examples: a complete configuration, a DNS-over-HTTPS answer
  holding one A record, the provider's success envelope, and a provider that lists two
  zones and two records and accepts every update. \<open>example_world body dns\<close> answers
  \<open>body\<close> to the IP request and \<open>dns\<close> to the DNS query.
\<close>

definition example_config :: pyval where
  "example_config =
     PDict [(''zone'', PStr ''example.com''),
            (''dnsrecord'', PStr ''home.example.com''),
            (''cloudflare_auth_email'', PStr ''admin@example.com''),
            (''cloudflare_auth_key'', PStr ''secret'')]"

definition doh_answer :: "string \<Rightarrow> pyval" where
  "doh_answer ip =
     PDict [(''Status'', PInt 0),
            (''Answer'', PList [PDict [(''name'', PStr ''home.example.com''),
                                       (''type'', PInt 1),
                                       (''data'', PStr ip)]])]"

definition envelope :: "pyval \<Rightarrow> pyval" where
  "envelope result =
     PDict [(''success'', PBool True), (''errors'', PList []), (''result'', result)]"

definition example_world :: "string \<Rightarrow> pyval http \<Rightarrow> world" where
  "example_world body dns =
     \<lparr>config_file = Parsed example_config,
      checkip = Response body,
      dns_query = (\<lambda>name. dns),
      zones_api = (\<lambda>zone email key.
        Response (envelope (PList [PDict [(''id'', PStr ''zone-1'')],
                                   PDict [(''id'', PStr ''zone-2'')]]))),
      records_api = (\<lambda>zone_id name email key.
        Response (envelope (PList [PDict [(''id'', PStr ''record-1'')],
                                   PDict [(''id'', PStr ''record-2'')]]))),
      update_api = (\<lambda>zone_id record_id body email key. Response (envelope body))\<rparr>"


text \<open>
  The worlds of the scenarios: the record is out of date; the IP service is down; the
  provider lists no zone; both the IP service and the DNS resolver answer the empty
  string.
\<close>

definition drifted_world :: world where
  "drifted_world = example_world (''5.6.7.8'' @ [CHR 0x0A]) (Response (doh_answer ''1.2.3.4''))"

definition offline_world :: world where
  "offline_world = drifted_world\<lparr>checkip := RequestFailed\<rparr>"

definition no_zone_world :: world where
  "no_zone_world =
     drifted_world\<lparr>zones_api := (\<lambda>zone email key. Response (envelope (PList [])))\<rparr>"

definition blank_world :: world where
  "blank_world = example_world '''' (Response (doh_answer ''''))"


text \<open>
  Further worlds: the configuration file is missing; it lacks three of the four keys; its
  four values are empty strings; the IP service answers the empty string while the
  published IP is 9.9.9.9.
\<close>

definition missing_file_world :: world where
  "missing_file_world = drifted_world\<lparr>config_file := NoFile\<rparr>"

definition incomplete_config_world :: world where
  "incomplete_config_world =
     drifted_world\<lparr>config_file := Parsed (PDict [(''zone'', PStr ''example.com'')])\<rparr>"

definition blank_config_world :: world where
  "blank_config_world =
     drifted_world\<lparr>config_file := Parsed (PDict
       [(''zone'', PStr ''''), (''dnsrecord'', PStr ''''),
        (''cloudflare_auth_email'', PStr ''''), (''cloudflare_auth_key'', PStr '''')])\<rparr>"

definition blank_ip_world :: world where
  "blank_ip_world = example_world '''' (Response (doh_answer ''9.9.9.9''))"


section \<open>Properties\<close>

lemma bind_Inl [simp]: "bind (t, Inl e) f = (t, Inl e)"
  by (simp add: bind_def)

lemma bind_Inr [simp]: "bind (t, Inr x) f = (t @ fst (f x), snd (f x))"
  by (simp add: bind_def split: prod.splits)

lemma io_eq: "snd m = r \<Longrightarrow> m = (fst m, r)"
  by (cases m) simp

lemma check_configured:
  assumes "configured w zone dnsrecord auth_email auth_key"
  shows "check_and_update_dns w =
    (fst (load_config w) @ Log INFO ''Starting DNS update check for {dnsrecord}'' #
       fst (except_Exception (try_update w zone dnsrecord auth_email auth_key)
             (\<lambda>e. log ERROR ''Unexpected error during DNS update: {e}'')),
     snd (except_Exception (try_update w zone dnsrecord auth_email auth_key)
             (\<lambda>e. log ERROR ''Unexpected error during DNS update: {e}'')))"
proof -
  from assms obtain config where c: "load_config w = (fst (load_config w), Inr config)"
    and g: "getitem config ''zone'' = Inr zone" "getitem config ''dnsrecord'' = Inr dnsrecord"
      "getitem config ''cloudflare_auth_email'' = Inr auth_email"
      "getitem config ''cloudflare_auth_key'' = Inr auth_key"
    by (auto simp: configured_def split: sum.splits intro: io_eq)
  show ?thesis
    unfolding check_and_update_dns_def
    by (subst c) (simp add: g pure_def log_def)
qed

lemma except_Inr [simp]: "except_Exception (t, Inr x) h = (t, Inr x)"
  by (simp add: except_Exception_def)

lemma except_Inl [simp]:
  "except_Exception (t, Inl e) h =
     (if is_Exception e then (t @ fst (h e), snd (h e)) else (t, Inl e))"
  by (simp add: except_Exception_def split: prod.splits)

text \<open>The seven ways through the try block.\<close>

lemma try_update_ip_raises:
  assumes "snd (get_external_ip w) = Inl x"
  shows "try_update w zone dnsrecord auth_email auth_key = (fst (get_external_ip w), Inl x)"
proof -
  obtain t1 where r1: "get_external_ip w = (t1, snd (get_external_ip w))"
    by (cases "get_external_ip w") simp
  note rs = r1 [unfolded assms]
  show ?thesis
    using rs by (simp add: try_update_def compared_def log_def)
qed

lemma try_update_dns_raises:
  assumes "snd (get_external_ip w) = Inr current_ip"
    and "snd (get_cloudflare_dns_ip w dnsrecord) = Inl x"
  shows "try_update w zone dnsrecord auth_email auth_key =
     (fst (get_external_ip w) @ Log INFO ''Current IP is {current_ip}'' #
      fst (get_cloudflare_dns_ip w dnsrecord), Inl x)"
proof -
  obtain t1 where r1: "get_external_ip w = (t1, snd (get_external_ip w))"
    by (cases "get_external_ip w") simp
  obtain t2 where r2: "get_cloudflare_dns_ip w dnsrecord = (t2, snd (get_cloudflare_dns_ip w dnsrecord))"
    by (cases "get_cloudflare_dns_ip w dnsrecord") simp
  note rs = r1 [unfolded assms(1)] r2 [unfolded assms(2)]
  show ?thesis
    using rs by (simp add: try_update_def compared_def log_def)
qed

lemma try_update_in_sync:
  assumes "snd (get_external_ip w) = Inr current_ip"
    and "snd (get_cloudflare_dns_ip w dnsrecord) = Inr cf_ip"
    and "truthy cf_ip \<and> cf_ip = PStr current_ip"
  shows "try_update w zone dnsrecord auth_email auth_key =
     (fst (get_external_ip w) @ Log INFO ''Current IP is {current_ip}'' #
      fst (get_cloudflare_dns_ip w dnsrecord) @
      [Log INFO ''Cloudflare IP is {cf_ip}'',
       Log SUCCESS ''{dnsrecord} is currently set to {current_ip}; no changes needed''],
      Inr ())"
proof -
  obtain t1 where r1: "get_external_ip w = (t1, snd (get_external_ip w))"
    by (cases "get_external_ip w") simp
  obtain t2 where r2: "get_cloudflare_dns_ip w dnsrecord = (t2, snd (get_cloudflare_dns_ip w dnsrecord))"
    by (cases "get_cloudflare_dns_ip w dnsrecord") simp
  note rs = r1 [unfolded assms(1)] r2 [unfolded assms(2)]
  show ?thesis
    using rs assms(3) by (auto simp: try_update_def compared_def log_def)
qed

lemma try_update_zone_raises:
  assumes "snd (get_external_ip w) = Inr current_ip"
    and "snd (get_cloudflare_dns_ip w dnsrecord) = Inr cf_ip"
    and "\<not> (truthy cf_ip \<and> cf_ip = PStr current_ip)"
    and "snd (get_zone_id w zone auth_email auth_key) = Inl x"
  shows "try_update w zone dnsrecord auth_email auth_key =
     (compared w dnsrecord current_ip @ fst (get_zone_id w zone auth_email auth_key), Inl x)"
proof -
  obtain t1 where r1: "get_external_ip w = (t1, snd (get_external_ip w))"
    by (cases "get_external_ip w") simp
  obtain t2 where r2: "get_cloudflare_dns_ip w dnsrecord = (t2, snd (get_cloudflare_dns_ip w dnsrecord))"
    by (cases "get_cloudflare_dns_ip w dnsrecord") simp
  obtain t4 where r4: "get_zone_id w zone auth_email auth_key = (t4, snd (get_zone_id w zone auth_email auth_key))"
    by (cases "get_zone_id w zone auth_email auth_key") simp
  note rs = r1 [unfolded assms(1)] r2 [unfolded assms(2)] r4 [unfolded assms(4)]
  show ?thesis
    using rs assms(3) by (auto simp: try_update_def compared_def log_def)
qed

lemma try_update_record_raises:
  assumes "snd (get_external_ip w) = Inr current_ip"
    and "snd (get_cloudflare_dns_ip w dnsrecord) = Inr cf_ip"
    and "\<not> (truthy cf_ip \<and> cf_ip = PStr current_ip)"
    and "snd (get_zone_id w zone auth_email auth_key) = Inr zone_id"
    and "snd (get_dns_record_id w zone_id dnsrecord auth_email auth_key) = Inl x"
  shows "try_update w zone dnsrecord auth_email auth_key =
     (compared w dnsrecord current_ip @ fst (get_zone_id w zone auth_email auth_key) @
      Log INFO ''Zone ID for {zone} is {zone_id}'' #
      fst (get_dns_record_id w zone_id dnsrecord auth_email auth_key), Inl x)"
proof -
  obtain t1 where r1: "get_external_ip w = (t1, snd (get_external_ip w))"
    by (cases "get_external_ip w") simp
  obtain t2 where r2: "get_cloudflare_dns_ip w dnsrecord = (t2, snd (get_cloudflare_dns_ip w dnsrecord))"
    by (cases "get_cloudflare_dns_ip w dnsrecord") simp
  obtain t4 where r4: "get_zone_id w zone auth_email auth_key = (t4, snd (get_zone_id w zone auth_email auth_key))"
    by (cases "get_zone_id w zone auth_email auth_key") simp
  obtain t5 where r5: "get_dns_record_id w zone_id dnsrecord auth_email auth_key = (t5, snd (get_dns_record_id w zone_id dnsrecord auth_email auth_key))"
    by (cases "get_dns_record_id w zone_id dnsrecord auth_email auth_key") simp
  note rs = r1 [unfolded assms(1)] r2 [unfolded assms(2)] r4 [unfolded assms(4)] r5 [unfolded assms(5)]
  show ?thesis
    using rs assms(3) by (auto simp: try_update_def compared_def log_def)
qed

lemma try_update_put_raises:
  assumes "snd (get_external_ip w) = Inr current_ip"
    and "snd (get_cloudflare_dns_ip w dnsrecord) = Inr cf_ip"
    and "\<not> (truthy cf_ip \<and> cf_ip = PStr current_ip)"
    and "snd (get_zone_id w zone auth_email auth_key) = Inr zone_id"
    and "snd (get_dns_record_id w zone_id dnsrecord auth_email auth_key) = Inr record_id"
    and "snd (update_dns_record w zone_id record_id dnsrecord current_ip auth_email auth_key) = Inl x"
  shows "try_update w zone dnsrecord auth_email auth_key =
     (compared w dnsrecord current_ip @ fst (get_zone_id w zone auth_email auth_key) @
      Log INFO ''Zone ID for {zone} is {zone_id}'' #
      fst (get_dns_record_id w zone_id dnsrecord auth_email auth_key) @
      Log INFO ''DNS record ID for {dnsrecord} is {record_id}'' #
      fst (update_dns_record w zone_id record_id dnsrecord current_ip auth_email auth_key),
      Inl x)"
proof -
  obtain t1 where r1: "get_external_ip w = (t1, snd (get_external_ip w))"
    by (cases "get_external_ip w") simp
  obtain t2 where r2: "get_cloudflare_dns_ip w dnsrecord = (t2, snd (get_cloudflare_dns_ip w dnsrecord))"
    by (cases "get_cloudflare_dns_ip w dnsrecord") simp
  obtain t4 where r4: "get_zone_id w zone auth_email auth_key = (t4, snd (get_zone_id w zone auth_email auth_key))"
    by (cases "get_zone_id w zone auth_email auth_key") simp
  obtain t5 where r5: "get_dns_record_id w zone_id dnsrecord auth_email auth_key = (t5, snd (get_dns_record_id w zone_id dnsrecord auth_email auth_key))"
    by (cases "get_dns_record_id w zone_id dnsrecord auth_email auth_key") simp
  obtain t6 where r6: "update_dns_record w zone_id record_id dnsrecord current_ip auth_email auth_key = (t6, snd (update_dns_record w zone_id record_id dnsrecord current_ip auth_email auth_key))"
    by (cases "update_dns_record w zone_id record_id dnsrecord current_ip auth_email auth_key") simp
  note rs = r1 [unfolded assms(1)] r2 [unfolded assms(2)] r4 [unfolded assms(4)] r5 [unfolded assms(5)] r6 [unfolded assms(6)]
  show ?thesis
    using rs assms(3) by (auto simp: try_update_def compared_def log_def)
qed

lemma try_update_written:
  assumes "snd (get_external_ip w) = Inr current_ip"
    and "snd (get_cloudflare_dns_ip w dnsrecord) = Inr cf_ip"
    and "\<not> (truthy cf_ip \<and> cf_ip = PStr current_ip)"
    and "snd (get_zone_id w zone auth_email auth_key) = Inr zone_id"
    and "snd (get_dns_record_id w zone_id dnsrecord auth_email auth_key) = Inr record_id"
    and "snd (update_dns_record w zone_id record_id dnsrecord current_ip auth_email auth_key) = Inr result"
  shows "try_update w zone dnsrecord auth_email auth_key =
     (compared w dnsrecord current_ip @ fst (get_zone_id w zone auth_email auth_key) @
      Log INFO ''Zone ID for {zone} is {zone_id}'' #
      fst (get_dns_record_id w zone_id dnsrecord auth_email auth_key) @
      Log INFO ''DNS record ID for {dnsrecord} is {record_id}'' #
      fst (update_dns_record w zone_id record_id dnsrecord current_ip auth_email auth_key) @
      [Log SUCCESS ''Successfully updated {dnsrecord} to {current_ip}'',
       Log DEBUG ''Response: {json.dumps(result, indent=2)}''],
      Inr ())"
proof -
  obtain t1 where r1: "get_external_ip w = (t1, snd (get_external_ip w))"
    by (cases "get_external_ip w") simp
  obtain t2 where r2: "get_cloudflare_dns_ip w dnsrecord = (t2, snd (get_cloudflare_dns_ip w dnsrecord))"
    by (cases "get_cloudflare_dns_ip w dnsrecord") simp
  obtain t4 where r4: "get_zone_id w zone auth_email auth_key = (t4, snd (get_zone_id w zone auth_email auth_key))"
    by (cases "get_zone_id w zone auth_email auth_key") simp
  obtain t5 where r5: "get_dns_record_id w zone_id dnsrecord auth_email auth_key = (t5, snd (get_dns_record_id w zone_id dnsrecord auth_email auth_key))"
    by (cases "get_dns_record_id w zone_id dnsrecord auth_email auth_key") simp
  obtain t6 where r6: "update_dns_record w zone_id record_id dnsrecord current_ip auth_email auth_key = (t6, snd (update_dns_record w zone_id record_id dnsrecord current_ip auth_email auth_key))"
    by (cases "update_dns_record w zone_id record_id dnsrecord current_ip auth_email auth_key") simp
  note rs = r1 [unfolded assms(1)] r2 [unfolded assms(2)] r4 [unfolded assms(4)] r5 [unfolded assms(5)] r6 [unfolded assms(6)]
  show ?thesis
    using rs assms(3) by (auto simp: try_update_def compared_def log_def)
qed

lemma try_update_cases [case_names ip_raises dns_raises in_sync zone_raises record_raises
    put_raises written]:
  obtains
    x where "snd (get_external_ip w) = Inl x"
  | ip x where "snd (get_external_ip w) = Inr ip"
      "snd (get_cloudflare_dns_ip w d) = Inl x"
  | ip cf where "snd (get_external_ip w) = Inr ip"
      "snd (get_cloudflare_dns_ip w d) = Inr cf" "truthy cf \<and> cf = PStr ip"
  | ip cf x where "snd (get_external_ip w) = Inr ip"
      "snd (get_cloudflare_dns_ip w d) = Inr cf" "\<not> (truthy cf \<and> cf = PStr ip)"
      "snd (get_zone_id w z e k) = Inl x"
  | ip cf zid x where "snd (get_external_ip w) = Inr ip"
      "snd (get_cloudflare_dns_ip w d) = Inr cf" "\<not> (truthy cf \<and> cf = PStr ip)"
      "snd (get_zone_id w z e k) = Inr zid"
      "snd (get_dns_record_id w zid d e k) = Inl x"
  | ip cf zid rid x where "snd (get_external_ip w) = Inr ip"
      "snd (get_cloudflare_dns_ip w d) = Inr cf" "\<not> (truthy cf \<and> cf = PStr ip)"
      "snd (get_zone_id w z e k) = Inr zid"
      "snd (get_dns_record_id w zid d e k) = Inr rid"
      "snd (update_dns_record w zid rid d ip e k) = Inl x"
  | ip cf zid rid res where "snd (get_external_ip w) = Inr ip"
      "snd (get_cloudflare_dns_ip w d) = Inr cf" "\<not> (truthy cf \<and> cf = PStr ip)"
      "snd (get_zone_id w z e k) = Inr zid"
      "snd (get_dns_record_id w zid d e k) = Inr rid"
      "snd (update_dns_record w zid rid d ip e k) = Inr res"
proof (cases "snd (get_external_ip w)")
  case (Inl x)
  then show ?thesis using that(1) by blast
next
  case a: (Inr ip)
  show ?thesis
  proof (cases "snd (get_cloudflare_dns_ip w d)")
    case (Inl x)
    with a show ?thesis using that(2) by blast
  next
    case b: (Inr cf)
    show ?thesis
    proof (cases "truthy cf \<and> cf = PStr ip")
      case True
      with a b show ?thesis using that(3) by blast
    next
      case c: False
      show ?thesis
      proof (cases "snd (get_zone_id w z e k)")
        case (Inl x)
        with a b c show ?thesis using that(4) by blast
      next
        case f: (Inr zid)
        show ?thesis
        proof (cases "snd (get_dns_record_id w zid d e k)")
          case (Inl x)
          with a b c f show ?thesis using that(5) by blast
        next
          case g: (Inr rid)
          show ?thesis
          proof (cases "snd (update_dns_record w zid rid d ip e k)")
            case (Inl x)
            with a b c f g show ?thesis using that(6) by blast
          next
            case (Inr res)
            with a b c f g show ?thesis using that(7) by blast
          qed
        qed
      qed
    qed
  qed
qed

text \<open>Only \<^verbatim>\<open>sys.exit\<close> raises something that \<^verbatim>\<open>except Exception\<close> lets through, and
  nothing called inside the try block does.\<close>

lemma dict_get_raises: "dict_get v k = Inl x \<Longrightarrow> x = AttributeError"
  by (cases v) auto

lemma getitem_0_raises: "getitem_0 v = Inl x \<Longrightarrow> is_Exception x"
  by (cases v rule: getitem_0.cases) auto

lemma getitem_raises: "getitem v k = Inl x \<Longrightarrow> is_Exception x"
  by (cases v) (auto split: option.splits)

lemma get_external_ip_raises: "snd (get_external_ip w) = Inl x \<Longrightarrow> is_Exception x"
  by (auto simp: get_external_ip_def split: http.splits)

lemma get_cloudflare_dns_ip_raises:
  "snd (get_cloudflare_dns_ip w d) = Inl x \<Longrightarrow> is_Exception x"
  by (auto simp: get_cloudflare_dns_ip_def Let_def
      split: http.splits sum.splits if_splits
      dest: dict_get_raises getitem_0_raises getitem_raises)

lemma get_zone_id_raises: "snd (get_zone_id w z e k) = Inl x \<Longrightarrow> is_Exception x"
  by (auto simp: get_zone_id_def Let_def
      split: http.splits sum.splits if_splits
      dest: dict_get_raises getitem_0_raises getitem_raises)

lemma get_dns_record_id_raises:
  "snd (get_dns_record_id w zid d e k) = Inl x \<Longrightarrow> is_Exception x"
  by (auto simp: get_dns_record_id_def Let_def
      split: http.splits sum.splits if_splits
      dest: dict_get_raises getitem_0_raises getitem_raises)

lemma update_dns_record_raises:
  "snd (update_dns_record w zid rid d ip e k) = Inl x \<Longrightarrow> is_Exception x"
  by (auto simp: update_dns_record_def Let_def
      split: http.splits sum.splits if_splits
      dest: dict_get_raises)

lemma try_update_raises:
  assumes "snd (try_update w z d e k) = Inl x"
  shows "is_Exception x"
proof (cases rule: try_update_cases [where w = w and d = d and z = z and e = e and k = k])
  case (ip_raises y)
  from assms get_external_ip_raises [OF ip_raises] show ?thesis
    by (simp add: try_update_ip_raises [OF ip_raises])
next
  case (dns_raises ip y)
  from assms get_cloudflare_dns_ip_raises [OF dns_raises(2)] show ?thesis
    by (simp add: try_update_dns_raises [OF dns_raises])
next
  case (in_sync ip cf)
  from assms show ?thesis
    by (simp add: try_update_in_sync [OF in_sync])
next
  case (zone_raises ip cf y)
  from assms get_zone_id_raises [OF zone_raises(4)] show ?thesis
    by (simp add: try_update_zone_raises [OF zone_raises])
next
  case (record_raises ip cf zid y)
  from assms get_dns_record_id_raises [OF record_raises(5)] show ?thesis
    by (simp add: try_update_record_raises [OF record_raises])
next
  case (put_raises ip cf zid rid y)
  from assms update_dns_record_raises [OF put_raises(6)] show ?thesis
    by (simp add: try_update_put_raises [OF put_raises])
next
  case (written ip cf zid rid res)
  from assms show ?thesis
    by (simp add: try_update_written [OF written])
qed

lemma check_trace:
  assumes "configured w z d e k"
  shows "fst (check_and_update_dns w) =
     fst (load_config w) @ Log INFO ''Starting DNS update check for {dnsrecord}'' #
     fst (try_update w z d e k) @ caught (snd (try_update w z d e k))"
proof (cases "try_update w z d e k")
  case (Pair t r)
  then show ?thesis
    using try_update_raises [of w z d e k]
    by (cases r) (simp_all add: check_configured [OF assms] caught_def log_def)
qed

lemma check_result:
  assumes "configured w z d e k"
  shows "snd (check_and_update_dns w) = Inr ()"
proof (cases "try_update w z d e k")
  case (Pair t r)
  then show ?thesis
    using try_update_raises [of w z d e k]
    by (cases r) (simp_all add: check_configured [OF assms] log_def)
qed

lemma check_not_configured:
  "(\<exists>z d e k. configured w z d e k) \<or>
   (\<exists>x. check_and_update_dns w = (fst (load_config w), Inl x))"
proof (cases "load_config w")
  case (Pair t r)
  show ?thesis
  proof (cases r)
    case (Inl x)
    with Pair show ?thesis by (simp add: check_and_update_dns_def)
  next
    case (Inr config)
    with Pair show ?thesis
      by (cases "getitem config ''zone''"; cases "getitem config ''dnsrecord''";
          cases "getitem config ''cloudflare_auth_email''";
          cases "getitem config ''cloudflare_auth_key''")
        (simp_all add: check_and_update_dns_def pure_def configured_def)
  qed
qed

lemmas example_defs =
  example_world_def example_config_def doh_answer_def envelope_def
  configured_def load_config_def required_fields_def config_path_def
  get_external_ip_def get_cloudflare_dns_ip_def get_zone_id_def get_dns_record_id_def
  update_dns_record_def payload_def strip_def isspace_def Let_def

text \<open>Which requests each function sends.\<close>

lemma load_config_calls:
  "filter is_provider_call (fst (load_config w)) = []"
  "filter is_update (fst (load_config w)) = []"
  "filter is_record_lookup (fst (load_config w)) = []"
  "filter is_dns_lookup (fst (load_config w)) = []"
  "GetExternalIP \<notin> set (fst (load_config w))"
  by (simp_all add: load_config_def split: config_source.splits sum.splits)

lemma get_external_ip_calls:
  "filter is_provider_call (fst (get_external_ip w)) = []"
  "filter is_update (fst (get_external_ip w)) = []"
  "filter is_record_lookup (fst (get_external_ip w)) = []"
  "filter is_dns_lookup (fst (get_external_ip w)) = []"
  by (simp_all add: get_external_ip_def split: http.splits)

lemma get_cloudflare_dns_ip_calls:
  "filter is_provider_call (fst (get_cloudflare_dns_ip w d)) = []"
  "filter is_update (fst (get_cloudflare_dns_ip w d)) = []"
  "filter is_record_lookup (fst (get_cloudflare_dns_ip w d)) = []"
  by (simp_all add: get_cloudflare_dns_ip_def Let_def split: http.splits sum.splits)

lemma get_zone_id_calls:
  "filter is_update (fst (get_zone_id w z e k)) = []"
  "filter is_record_lookup (fst (get_zone_id w z e k)) = []"
  "ZonesGet z e k \<in> set (fst (get_zone_id w z e k))"
  by (simp_all add: get_zone_id_def Let_def split: http.splits sum.splits)

lemma get_dns_record_id_calls:
  "filter is_update (fst (get_dns_record_id w zi d e k)) = []"
  by (simp_all add: get_dns_record_id_def Let_def split: http.splits sum.splits)

lemma update_dns_record_calls:
  "filter is_update (fst (update_dns_record w zi ri d ip e k)) =
     [RecordPut zi ri (payload d ip) e k]"
  by (simp_all add: update_dns_record_def Let_def split: http.splits sum.splits)

lemma caught_calls:
  "filter is_provider_call (caught r) = []"
  "filter is_update (caught r) = []"
  "filter is_record_lookup (caught r) = []"
  "filter is_dns_lookup (caught r) = []"
  by (simp_all add: caught_def split: sum.splits)

lemmas quiet = load_config_calls get_external_ip_calls get_cloudflare_dns_ip_calls
  get_zone_id_calls get_dns_record_id_calls update_dns_record_calls caught_calls

lemmas run_defs =
  check_and_update_dns_def try_update_def bind_def pure_def log_def except_Exception_def

lemmas world_defs = drifted_world_def offline_world_def no_zone_world_def blank_world_def
  missing_file_world_def incomplete_config_world_def blank_config_world_def
  blank_ip_world_def


subsection \<open>C1: a cycle that finds the record in sync\<close>

text \<open>
  Claim C1, as amended. In every cycle in which the DNS lookup returns a published IP that
  is a non-empty string equal to the freshly fetched external IP, the reconciler sends no
  request to the provider API (no zone lookup, no record lookup, no update), returns
  normally, and the last thing it does is to log the success message.
\<close>

theorem in_sync_no_provider_call:
  assumes "configured w zone dnsrecord auth_email auth_key"
    and "snd (get_external_ip w) = Inr current_ip"
    and "snd (get_cloudflare_dns_ip w dnsrecord) = Inr (PStr current_ip)"
    and "current_ip \<noteq> []"
  shows "filter is_provider_call (fst (check_and_update_dns w)) = [] \<and>
    snd (check_and_update_dns w) = Inr () \<and>
    last (fst (check_and_update_dns w)) =
      Log SUCCESS ''{dnsrecord} is currently set to {current_ip}; no changes needed''"
proof -
  have sync: "truthy (PStr current_ip) \<and> PStr current_ip = PStr current_ip"
    using assms(4) by simp
  note run = try_update_in_sync [OF assms(2) assms(3) sync, of zone auth_email auth_key]
  show ?thesis
    by (simp add: check_trace [OF assms(1)] check_result [OF assms(1)] run quiet caught_def)
qed

text \<open>The scenario of the specification: external IP 1.2.3.4 (the service ends its
  answer with a newline), published IP 1.2.3.4.\<close>

theorem in_sync_no_provider_call_witness:
  "configured (example_world (''1.2.3.4'' @ [CHR 0x0A]) (Response (doh_answer ''1.2.3.4'')))
     (PStr ''example.com'') (PStr ''home.example.com'') (PStr ''admin@example.com'')
     (PStr ''secret'') \<and>
   snd (get_external_ip
     (example_world (''1.2.3.4'' @ [CHR 0x0A]) (Response (doh_answer ''1.2.3.4'')))) =
     Inr ''1.2.3.4'' \<and>
   snd (get_cloudflare_dns_ip
     (example_world (''1.2.3.4'' @ [CHR 0x0A]) (Response (doh_answer ''1.2.3.4'')))
     (PStr ''home.example.com'')) = Inr (PStr ''1.2.3.4'') \<and>
   filter is_provider_call (fst (check_and_update_dns
     (example_world (''1.2.3.4'' @ [CHR 0x0A]) (Response (doh_answer ''1.2.3.4''))))) = [] \<and>
   snd (check_and_update_dns
     (example_world (''1.2.3.4'' @ [CHR 0x0A]) (Response (doh_answer ''1.2.3.4'')))) = Inr () \<and>
   last (fst (check_and_update_dns
     (example_world (''1.2.3.4'' @ [CHR 0x0A]) (Response (doh_answer ''1.2.3.4''))))) =
     Log SUCCESS ''{dnsrecord} is currently set to {current_ip}; no changes needed''"
proof -
  let ?w = "example_world (''1.2.3.4'' @ [CHR 0x0A]) (Response (doh_answer ''1.2.3.4''))"
  have a: "configured ?w (PStr ''example.com'') (PStr ''home.example.com'')
      (PStr ''admin@example.com'') (PStr ''secret'')"
    by (simp add: example_defs)
  have b: "snd (get_external_ip ?w) = Inr ''1.2.3.4''"
    by (simp add: example_defs)
  have c: "snd (get_cloudflare_dns_ip ?w (PStr ''home.example.com'')) = Inr (PStr ''1.2.3.4'')"
    by (simp add: example_defs)
  have d: "''1.2.3.4'' \<noteq> []"
    by simp
  from in_sync_no_provider_call [OF a b c d] a b c show ?thesis
    by simp
qed

text \<open>
  As stated, with the published IP only required to be present (not \<^verbatim>\<open>None\<close>) and equal
  to the external IP, C1 fails when both are the empty string: \<^verbatim>\<open>if cf_ip and ...\<close> tests
  the truth value of \<^verbatim>\<open>cf_ip\<close>, and the cycle goes through the three provider calls.
\<close>

theorem empty_ip_in_sync_counterexample:
  "snd (get_external_ip (example_world '''' (Response (doh_answer '''')))) = Inr '''' \<and>
   snd (get_cloudflare_dns_ip (example_world '''' (Response (doh_answer '''')))
     (PStr ''home.example.com'')) = Inr (PStr '''') \<and>
   filter is_provider_call (fst (check_and_update_dns
     (example_world '''' (Response (doh_answer ''''))))) =
     [ZonesGet (PStr ''example.com'') (PStr ''admin@example.com'') (PStr ''secret''),
      RecordsGet (PStr ''zone-1'') (PStr ''home.example.com'') (PStr ''admin@example.com'')
        (PStr ''secret''),
      RecordPut (PStr ''zone-1'') (PStr ''record-1'') (payload (PStr ''home.example.com'') '''')
        (PStr ''admin@example.com'') (PStr ''secret'')]"
  by (simp add: example_defs check_and_update_dns_def try_update_def bind_def pure_def log_def
      except_Exception_def)

subsection \<open>C2: a cycle that finds the record out of date\<close>

text \<open>
  Claim C2. In every cycle in which the published IP is absent (\<^verbatim>\<open>None\<close>) or differs from
  the external IP just fetched, and the zone lookup, the record lookup and the update all
  succeed, exactly one update request is sent; its body has content equal to the external
  IP, type \<open>A\<close>, ttl \<open>1\<close> and proxied \<open>False\<close>.
\<close>

theorem divergent_one_update:
  assumes "configured w zone dnsrecord auth_email auth_key"
    and "snd (get_external_ip w) = Inr current_ip"
    and "snd (get_cloudflare_dns_ip w dnsrecord) = Inr cf_ip"
    and "cf_ip = PNone \<or> cf_ip \<noteq> PStr current_ip"
    and "snd (get_zone_id w zone auth_email auth_key) = Inr zone_id"
    and "snd (get_dns_record_id w zone_id dnsrecord auth_email auth_key) = Inr record_id"
    and "snd (update_dns_record w zone_id record_id dnsrecord current_ip auth_email auth_key) =
      Inr result"
  shows "filter is_update (fst (check_and_update_dns w)) =
      [RecordPut zone_id record_id (payload dnsrecord current_ip) auth_email auth_key] \<and>
    getitem (payload dnsrecord current_ip) ''content'' = Inr (PStr current_ip) \<and>
    getitem (payload dnsrecord current_ip) ''type'' = Inr (PStr ''A'') \<and>
    getitem (payload dnsrecord current_ip) ''ttl'' = Inr (PInt 1) \<and>
    getitem (payload dnsrecord current_ip) ''proxied'' = Inr (PBool False)"
proof -
  have differs: "\<not> (truthy cf_ip \<and> cf_ip = PStr current_ip)"
    using assms(4) by auto
  note run = try_update_written [OF assms(2) assms(3) differs assms(5) assms(6) assms(7)]
  have "filter is_update (fst (check_and_update_dns w)) =
      [RecordPut zone_id record_id (payload dnsrecord current_ip) auth_email auth_key]"
    by (simp add: check_trace [OF assms(1)] run quiet compared_def caught_def)
  then show ?thesis
    by (simp add: payload_def)
qed

text \<open>The scenario of the specification: external IP 5.6.7.8, published IP 1.2.3.4.\<close>

theorem divergent_one_update_witness:
  "configured drifted_world (PStr ''example.com'') (PStr ''home.example.com'')
     (PStr ''admin@example.com'') (PStr ''secret'') \<and>
   snd (get_external_ip drifted_world) = Inr ''5.6.7.8'' \<and>
   snd (get_cloudflare_dns_ip drifted_world (PStr ''home.example.com'')) =
     Inr (PStr ''1.2.3.4'') \<and>
   snd (get_zone_id drifted_world (PStr ''example.com'') (PStr ''admin@example.com'')
     (PStr ''secret'')) = Inr (PStr ''zone-1'') \<and>
   snd (get_dns_record_id drifted_world (PStr ''zone-1'') (PStr ''home.example.com'')
     (PStr ''admin@example.com'') (PStr ''secret'')) = Inr (PStr ''record-1'') \<and>
   filter is_update (fst (check_and_update_dns drifted_world)) =
     [RecordPut (PStr ''zone-1'') (PStr ''record-1'')
        (PDict [(''type'', PStr ''A''), (''name'', PStr ''home.example.com''),
                (''content'', PStr ''5.6.7.8''), (''ttl'', PInt 1), (''proxied'', PBool False)])
        (PStr ''admin@example.com'') (PStr ''secret'')]"
proof -
  let ?z = "PStr ''example.com''" and ?d = "PStr ''home.example.com''"
    and ?e = "PStr ''admin@example.com''" and ?k = "PStr ''secret''"
  have a: "configured drifted_world ?z ?d ?e ?k"
    by (simp add: world_defs example_defs)
  have b: "snd (get_external_ip drifted_world) = Inr ''5.6.7.8''"
    by (simp add: world_defs example_defs)
  have c: "snd (get_cloudflare_dns_ip drifted_world ?d) = Inr (PStr ''1.2.3.4'')"
    by (simp add: world_defs example_defs)
  have d: "PStr ''1.2.3.4'' = PNone \<or> PStr ''1.2.3.4'' \<noteq> PStr ''5.6.7.8''"
    by simp
  have f: "snd (get_zone_id drifted_world ?z ?e ?k) = Inr (PStr ''zone-1'')"
    by (simp add: world_defs example_defs)
  have g: "snd (get_dns_record_id drifted_world (PStr ''zone-1'') ?d ?e ?k) =
      Inr (PStr ''record-1'')"
    by (simp add: world_defs example_defs)
  have h: "snd (update_dns_record drifted_world (PStr ''zone-1'') (PStr ''record-1'') ?d
      ''5.6.7.8'' ?e ?k) = Inr (envelope (payload ?d ''5.6.7.8''))"
    by (simp add: world_defs example_defs)
  from divergent_one_update [OF a b c d f g h] a b c f g show ?thesis
    by (simp add: payload_def)
qed

subsection \<open>C3: what a cycle lets through to the scheduler\<close>

text \<open>
  Claim C3, as amended. When the configuration load of the cycle succeeds and gives the
  four settings, a single call of \<^verbatim>\<open>check_and_update_dns\<close> returns normally whatever the IP
  service, the DNS resolver and the provider answer. Its events are those of the load,
  the start message, those of the try block and, exactly when the try block raised, the
  error message of the \<^verbatim>\<open>except\<close> clause as the last event: every failure is caught,
  logged and absorbed, and the scheduler goes on with the next tick.
\<close>

theorem configured_cycle_never_raises:
  assumes "configured w zone dnsrecord auth_email auth_key"
  shows "snd (check_and_update_dns w) = Inr () \<and>
    fst (check_and_update_dns w) =
      fst (load_config w) @ Log INFO ''Starting DNS update check for {dnsrecord}'' #
      fst (try_update w zone dnsrecord auth_email auth_key) @
      (case snd (try_update w zone dnsrecord auth_email auth_key) of
         Inl x \<Rightarrow> [Log ERROR ''Unexpected error during DNS update: {e}'']
       | Inr u \<Rightarrow> []) \<and>
    run_pending (w # ticks) =
      (fst (check_and_update_dns w) @ fst (run_pending ticks), snd (run_pending ticks))"
proof -
  have "check_and_update_dns w = (fst (check_and_update_dns w), Inr ())"
    using check_result [OF assms] by (rule io_eq)
  then have "run_pending (w # ticks) =
      (fst (check_and_update_dns w) @ fst (run_pending ticks), snd (run_pending ticks))"
    by (metis bind_Inr run_pending.simps(2) snd_conv)
  moreover have "fst (check_and_update_dns w) =
      fst (load_config w) @ Log INFO ''Starting DNS update check for {dnsrecord}'' #
      fst (try_update w zone dnsrecord auth_email auth_key) @
      (case snd (try_update w zone dnsrecord auth_email auth_key) of
         Inl x \<Rightarrow> [Log ERROR ''Unexpected error during DNS update: {e}'']
       | Inr u \<Rightarrow> [])"
    using check_trace [OF assms] by (simp add: caught_def)
  ultimately show ?thesis
    using check_result [OF assms] by simp
qed

theorem configured_cycle_never_raises_witness:
  "configured no_zone_world (PStr ''example.com'') (PStr ''home.example.com'')
     (PStr ''admin@example.com'') (PStr ''secret'') \<and>
   snd (try_update no_zone_world (PStr ''example.com'') (PStr ''home.example.com'')
     (PStr ''admin@example.com'') (PStr ''secret'')) =
     Inl (Exception ''Zone '{zone}' not found'') \<and>
   snd (check_and_update_dns no_zone_world) = Inr () \<and>
   last (fst (check_and_update_dns no_zone_world)) =
     Log ERROR ''Unexpected error during DNS update: {e}'' \<and>
   run_pending [no_zone_world, offline_world] =
     (fst (check_and_update_dns no_zone_world) @ fst (run_pending [offline_world]),
      snd (run_pending [offline_world]))"
proof -
  have a: "configured no_zone_world (PStr ''example.com'') (PStr ''home.example.com'')
      (PStr ''admin@example.com'') (PStr ''secret'')"
    by (simp add: world_defs example_defs)
  have b: "snd (try_update no_zone_world (PStr ''example.com'') (PStr ''home.example.com'')
      (PStr ''admin@example.com'') (PStr ''secret'')) =
      Inl (Exception ''Zone '{zone}' not found'')"
    by (simp add: world_defs example_defs run_defs)
  from configured_cycle_never_raises [OF a, of "[offline_world]"] a b show ?thesis
    by simp
qed

text \<open>
  As stated, for every outcome of the configuration load as well, C3 fails:
  \<^verbatim>\<open>load_config\<close> is called before the \<^verbatim>\<open>try\<close> statement and ends the process with
  \<^verbatim>\<open>sys.exit(1)\<close> when the file is missing; \<^verbatim>\<open>SystemExit\<close> reaches the caller.
\<close>

theorem missing_config_exits_counterexample:
  "check_and_update_dns (example_world ''1.2.3.4'' RequestFailed\<lparr>config_file := NoFile\<rparr>) =
     ([FileExists ''config/config.json'',
       Log ERROR ''Configuration file '{config_path}' not found'',
       Log INFO ''Please create a config.json file with the required parameters'',
       Log INFO ''See config.sample.json for an example''],
      Inl (SystemExit 1))"
  by (simp add: example_defs check_and_update_dns_def)

subsection \<open>C4: the published-IP lookup\<close>

text \<open>
  Claim C4. \<^verbatim>\<open>get_cloudflare_dns_ip\<close> does not raise on a transport failure or a lookup
  miss: on a failed request it logs a warning and returns \<^verbatim>\<open>None\<close>; when the response
  object has no \<^verbatim>\<open>Answer\<close> or an empty one it returns \<^verbatim>\<open>None\<close>; when the \<^verbatim>\<open>Answer\<close> is a
  non-empty array of objects it returns the \<^verbatim>\<open>data\<close> field of the first.
\<close>

theorem get_cloudflare_dns_ip_contract:
  "(dns_query w dnsrecord = RequestFailed \<longrightarrow>
      get_cloudflare_dns_ip w dnsrecord =
        ([Log DEBUG ''Querying Cloudflare DNS for {dnsrecord}'', DnsQuery dnsrecord,
          Log WARNING ''Could not query DNS via Cloudflare API: {e}''], Inr PNone)) \<and>
   (dns_query w dnsrecord = Response (PDict kvs) \<and>
      (map_of kvs ''Answer'' = None \<or> map_of kvs ''Answer'' = Some (PList [])) \<longrightarrow>
      snd (get_cloudflare_dns_ip w dnsrecord) = Inr PNone) \<and>
   (dns_query w dnsrecord = Response (PDict kvs) \<and>
      map_of kvs ''Answer'' = Some (PList (PDict first # others)) \<and>
      map_of first ''data'' = Some ip \<longrightarrow>
      snd (get_cloudflare_dns_ip w dnsrecord) = Inr ip)"
  by (auto simp: get_cloudflare_dns_ip_def)

theorem get_cloudflare_dns_ip_contract_witness:
  "dns_query (example_world ''1.2.3.4'' RequestFailed) (PStr ''home.example.com'') =
     RequestFailed \<and>
   snd (get_cloudflare_dns_ip (example_world ''1.2.3.4'' RequestFailed)
     (PStr ''home.example.com'')) = Inr PNone \<and>
   dns_query (example_world ''1.2.3.4'' (Response (PDict [(''Status'', PInt 3)])))
     (PStr ''home.example.com'') = Response (PDict [(''Status'', PInt 3)]) \<and>
   map_of [(''Status'', PInt 3)] ''Answer'' = None \<and>
   snd (get_cloudflare_dns_ip (example_world ''1.2.3.4'' (Response (PDict [(''Status'', PInt 3)])))
     (PStr ''home.example.com'')) = Inr PNone \<and>
   snd (get_cloudflare_dns_ip drifted_world (PStr ''home.example.com'')) =
     Inr (PStr ''1.2.3.4'')"
proof -
  let ?d = "PStr ''home.example.com''"
  let ?wa = "example_world ''1.2.3.4'' RequestFailed"
  let ?wb = "example_world ''1.2.3.4'' (Response (PDict [(''Status'', PInt 3)]))"
  let ?first = "[(''name'', PStr ''home.example.com''), (''type'', PInt 1),
    (''data'', PStr ''1.2.3.4'')]"
  let ?kvs = "[(''Status'', PInt 0), (''Answer'', PList [PDict ?first])]"
  have a: "dns_query ?wa ?d = RequestFailed"
    by (simp add: example_world_def)
  have b: "dns_query ?wb ?d = Response (PDict [(''Status'', PInt 3)])"
    by (simp add: example_world_def)
  have b': "map_of [(''Status'', PInt 3)] ''Answer'' = None"
    by simp
  have c: "dns_query drifted_world ?d = Response (PDict ?kvs)"
    by (simp add: world_defs example_world_def doh_answer_def)
  have c': "map_of ?kvs ''Answer'' = Some (PList (PDict ?first # []))"
    by simp
  have c'': "map_of ?first ''data'' = Some (PStr ''1.2.3.4'')"
    by simp
  note thm_a = get_cloudflare_dns_ip_contract
    [THEN conjunct1, THEN mp, OF a]
  note thm_b = get_cloudflare_dns_ip_contract
    [THEN conjunct2, THEN conjunct1, THEN mp, OF conjI [OF b disjI1 [OF b']]]
  note thm_c = get_cloudflare_dns_ip_contract
    [THEN conjunct2, THEN conjunct2, THEN mp, OF conjI [OF c conjI [OF c' c'']]]
  from thm_a thm_b thm_c a b b' show ?thesis
    by simp
qed

subsection \<open>C6: a failing IP resolver\<close>

text \<open>
  Claim C6. In every cycle in which \<^verbatim>\<open>get_external_ip\<close> is called and raises, no DNS query
  and no provider request is sent, and \<^verbatim>\<open>check_and_update_dns\<close> returns normally.
\<close>

theorem ip_failure_isolated:
  assumes "snd (get_external_ip w) = Inl x"
    and "GetExternalIP \<in> set (fst (check_and_update_dns w))"
  shows "filter is_dns_lookup (fst (check_and_update_dns w)) = [] \<and>
    filter is_provider_call (fst (check_and_update_dns w)) = [] \<and>
    snd (check_and_update_dns w) = Inr ()"
proof -
  have "\<exists>z d e k. configured w z d e k"
    using check_not_configured [of w] assms(2) by (auto simp: load_config_calls)
  then obtain z d e k where c: "configured w z d e k"
    by blast
  note run = try_update_ip_raises [OF assms(1), of z d e k]
  show ?thesis
    by (simp add: check_trace [OF c] check_result [OF c] run quiet)
qed

theorem ip_failure_isolated_witness:
  "snd (get_external_ip offline_world) = Inl RequestException \<and>
   GetExternalIP \<in> set (fst (check_and_update_dns offline_world)) \<and>
   filter is_dns_lookup (fst (check_and_update_dns offline_world)) = [] \<and>
   filter is_provider_call (fst (check_and_update_dns offline_world)) = [] \<and>
   snd (check_and_update_dns offline_world) = Inr ()"
proof -
  have a: "snd (get_external_ip offline_world) = Inl RequestException"
    by (simp add: world_defs example_defs)
  have b: "GetExternalIP \<in> set (fst (check_and_update_dns offline_world))"
    by (simp add: world_defs example_defs run_defs)
  from ip_failure_isolated [OF a b] a b show ?thesis
    by simp
qed

subsection \<open>C7: a failing zone lookup\<close>

text \<open>The three ways in which the zone lookup fails on a well-formed exchange: the
  request fails, the envelope does not report success, the result is empty.\<close>

lemma get_zone_id_failures:
  "zones_api w z e k = RequestFailed \<Longrightarrow>
     snd (get_zone_id w z e k) = Inl RequestException"
  "zones_api w z e k = Response data \<Longrightarrow> dict_get data ''success'' = Inr s \<Longrightarrow>
     \<not> truthy s \<Longrightarrow>
     snd (get_zone_id w z e k) = Inl (Exception ''Cloudflare API error: {data.get('errors')}'')"
  "zones_api w z e k = Response data \<Longrightarrow> dict_get data ''success'' = Inr s \<Longrightarrow>
     truthy s \<Longrightarrow> dict_get data ''result'' = Inr r \<Longrightarrow> \<not> truthy r \<Longrightarrow>
     snd (get_zone_id w z e k) = Inl (Exception ''Zone '{zone}' not found'')"
  by (simp_all add: get_zone_id_def)

text \<open>
  Claim C7. In every cycle in which \<^verbatim>\<open>get_zone_id\<close> raises (for any of the reasons above,
  or any other), no record lookup and no update request is sent, and
  \<^verbatim>\<open>check_and_update_dns\<close> returns normally, so that the scheduler reaches the next tick.
\<close>

theorem zone_failure_isolated:
  assumes "configured w zone dnsrecord auth_email auth_key"
    and "snd (get_zone_id w zone auth_email auth_key) = Inl x"
  shows "filter is_record_lookup (fst (check_and_update_dns w)) = [] \<and>
    filter is_update (fst (check_and_update_dns w)) = [] \<and>
    snd (check_and_update_dns w) = Inr ()"
proof -
  have "filter is_record_lookup (fst (try_update w zone dnsrecord auth_email auth_key)) = [] \<and>
    filter is_update (fst (try_update w zone dnsrecord auth_email auth_key)) = []"
  proof (cases rule: try_update_cases
      [where w = w and d = dnsrecord and z = zone and e = auth_email and k = auth_key])
    case (ip_raises y)
    show ?thesis
      by (simp add: try_update_ip_raises [OF ip_raises] quiet)
  next
    case (dns_raises ip y)
    show ?thesis
      by (simp add: try_update_dns_raises [OF dns_raises] quiet)
  next
    case (in_sync ip cf)
    show ?thesis
      by (simp add: try_update_in_sync [OF in_sync] quiet)
  next
    case (zone_raises ip cf y)
    show ?thesis
      by (simp add: try_update_zone_raises [OF zone_raises] quiet compared_def)
  next
    case (record_raises ip cf zid y)
    with assms(2) show ?thesis by simp
  next
    case (put_raises ip cf zid rid y)
    with assms(2) show ?thesis by simp
  next
    case (written ip cf zid rid res)
    with assms(2) show ?thesis by simp
  qed
  then show ?thesis
    by (simp add: check_trace [OF assms(1)] check_result [OF assms(1)] quiet)
qed

text \<open>The scenario of the specification: the zone listing has no entry.\<close>

theorem zone_failure_isolated_witness:
  "configured no_zone_world (PStr ''example.com'') (PStr ''home.example.com'')
     (PStr ''admin@example.com'') (PStr ''secret'') \<and>
   snd (get_zone_id no_zone_world (PStr ''example.com'') (PStr ''admin@example.com'')
     (PStr ''secret'')) = Inl (Exception ''Zone '{zone}' not found'') \<and>
   filter is_record_lookup (fst (check_and_update_dns no_zone_world)) = [] \<and>
   filter is_update (fst (check_and_update_dns no_zone_world)) = [] \<and>
   snd (check_and_update_dns no_zone_world) = Inr ()"
proof -
  have a: "configured no_zone_world (PStr ''example.com'') (PStr ''home.example.com'')
      (PStr ''admin@example.com'') (PStr ''secret'')"
    by (simp add: world_defs example_defs)
  have b: "snd (get_zone_id no_zone_world (PStr ''example.com'') (PStr ''admin@example.com'')
      (PStr ''secret'')) = Inl (Exception ''Zone '{zone}' not found'')"
    by (simp add: world_defs example_defs)
  from zone_failure_isolated [OF a b] a b show ?thesis
    by simp
qed

subsection \<open>C9: an empty published IP\<close>

text \<open>The provider requests of each step, and the zone lookup as the first thing to
  happen once the comparison has failed.\<close>

lemma provider_calls_of:
  "filter is_provider_call (fst (get_zone_id w z e k)) = [ZonesGet z e k]"
  "filter is_provider_call (fst (get_dns_record_id w zi d e k)) = [RecordsGet zi d e k]"
  "filter is_provider_call (fst (update_dns_record w zi ri d ip e k)) =
     [RecordPut zi ri (payload d ip) e k]"
  "filter is_provider_call (compared w d ip) = []"
  by (simp_all add: get_zone_id_def get_dns_record_id_def update_dns_record_def compared_def
      quiet Let_def split: http.splits sum.splits)

lemma try_update_divergent:
  assumes "snd (get_external_ip w) = Inr ip"
    and "snd (get_cloudflare_dns_ip w d) = Inr cf"
    and "\<not> (truthy cf \<and> cf = PStr ip)"
  shows "\<exists>rest. fst (try_update w z d e k) =
    compared w d ip @ fst (get_zone_id w z e k) @ rest"
proof (cases rule: try_update_cases [where w = w and d = d and z = z and e = e and k = k])
  case (ip_raises y)
  with assms(1) show ?thesis by simp
next
  case (dns_raises ip' y)
  with assms(2) show ?thesis by simp
next
  case (in_sync ip' cf')
  with assms show ?thesis by auto
next
  case (zone_raises ip' cf' y)
  with assms have "ip' = ip" by simp
  with zone_raises show ?thesis
    by (simp add: try_update_zone_raises [OF zone_raises])
next
  case (record_raises ip' cf' zid y)
  with assms have "ip' = ip" by simp
  with record_raises show ?thesis
    by (simp add: try_update_record_raises [OF record_raises])
next
  case (put_raises ip' cf' zid rid y)
  with assms have "ip' = ip" by simp
  with put_raises show ?thesis
    by (simp add: try_update_put_raises [OF put_raises])
next
  case (written ip' cf' zid rid res)
  with assms have "ip' = ip" by simp
  with written show ?thesis
    by (simp add: try_update_written [OF written])
qed

text \<open>
  Claim C9. When the DNS lookup returns the empty string, the cycle treats the record as
  out of date whatever the external IP is, the empty string included: it logs that the
  record needs updating and goes through the update sequence. The provider requests of
  the cycle are the zone lookup; after it, when it returns a zone id, the record lookup
  for that id; and after that, when it returns a record id, the update of that record
  with the external IP as content.
\<close>

theorem empty_published_ip_is_divergent:
  assumes "configured w zone dnsrecord auth_email auth_key"
    and "snd (get_external_ip w) = Inr current_ip"
    and "snd (get_cloudflare_dns_ip w dnsrecord) = Inr (PStr '''')"
  shows "ZonesGet zone auth_email auth_key \<in> set (fst (check_and_update_dns w)) \<and>
    Log WARNING ''DNS record needs updating from {cf_ip} to {current_ip}''
      \<in> set (fst (check_and_update_dns w)) \<and>
    filter is_provider_call (fst (check_and_update_dns w)) =
      (case snd (get_zone_id w zone auth_email auth_key) of
         Inl x \<Rightarrow> [ZonesGet zone auth_email auth_key]
       | Inr zone_id \<Rightarrow>
           (case snd (get_dns_record_id w zone_id dnsrecord auth_email auth_key) of
              Inl x \<Rightarrow>
                [ZonesGet zone auth_email auth_key,
                 RecordsGet zone_id dnsrecord auth_email auth_key]
            | Inr record_id \<Rightarrow>
                [ZonesGet zone auth_email auth_key,
                 RecordsGet zone_id dnsrecord auth_email auth_key,
                 RecordPut zone_id record_id (payload dnsrecord current_ip)
                   auth_email auth_key]))"
proof -
  have differs: "\<not> (truthy (PStr '''') \<and> PStr '''' = PStr current_ip)"
    by simp
  from try_update_divergent [OF assms(2) assms(3) differs, of zone auth_email auth_key]
  obtain rest where "fst (try_update w zone dnsrecord auth_email auth_key) =
      compared w dnsrecord current_ip @ fst (get_zone_id w zone auth_email auth_key) @ rest"
    by blast
  then have sent: "ZonesGet zone auth_email auth_key \<in> set (fst (check_and_update_dns w)) \<and>
    Log WARNING ''DNS record needs updating from {cf_ip} to {current_ip}''
      \<in> set (fst (check_and_update_dns w))"
    by (simp add: check_trace [OF assms(1)] get_zone_id_calls compared_def)
  have calls: "filter is_provider_call (fst (check_and_update_dns w)) =
      filter is_provider_call (fst (try_update w zone dnsrecord auth_email auth_key))"
    by (simp add: check_trace [OF assms(1)] quiet)
  show ?thesis
  proof (cases "snd (get_zone_id w zone auth_email auth_key)")
    case (Inl x)
    note run = try_update_zone_raises [OF assms(2) assms(3) differs Inl]
    from sent show ?thesis
      by (simp add: calls run Inl provider_calls_of)
  next
    case zid: (Inr zone_id)
    show ?thesis
    proof (cases "snd (get_dns_record_id w zone_id dnsrecord auth_email auth_key)")
      case (Inl x)
      note run = try_update_record_raises [OF assms(2) assms(3) differs zid Inl]
      from sent show ?thesis
        by (simp add: calls run zid Inl provider_calls_of)
    next
      case rid: (Inr record_id)
      show ?thesis
      proof (cases "snd (update_dns_record w zone_id record_id dnsrecord current_ip
          auth_email auth_key)")
        case (Inl x)
        note run = try_update_put_raises [OF assms(2) assms(3) differs zid rid Inl]
        from sent show ?thesis
          by (simp add: calls run zid rid provider_calls_of)
      next
        case (Inr result)
        note run = try_update_written [OF assms(2) assms(3) differs zid rid Inr]
        from sent show ?thesis
          by (simp add: calls run zid rid provider_calls_of)
      qed
    qed
  qed
qed

text \<open>Both the external IP and the published IP are the empty string: the three
  requests are sent and the empty string is written.\<close>

theorem empty_published_ip_is_divergent_witness:
  "configured blank_world (PStr ''example.com'') (PStr ''home.example.com'')
     (PStr ''admin@example.com'') (PStr ''secret'') \<and>
   snd (get_external_ip blank_world) = Inr '''' \<and>
   snd (get_cloudflare_dns_ip blank_world (PStr ''home.example.com'')) = Inr (PStr '''') \<and>
   ZonesGet (PStr ''example.com'') (PStr ''admin@example.com'') (PStr ''secret'')
     \<in> set (fst (check_and_update_dns blank_world)) \<and>
   Log WARNING ''DNS record needs updating from {cf_ip} to {current_ip}''
     \<in> set (fst (check_and_update_dns blank_world)) \<and>
   filter is_provider_call (fst (check_and_update_dns blank_world)) =
     [ZonesGet (PStr ''example.com'') (PStr ''admin@example.com'') (PStr ''secret''),
      RecordsGet (PStr ''zone-1'') (PStr ''home.example.com'') (PStr ''admin@example.com'')
        (PStr ''secret''),
      RecordPut (PStr ''zone-1'') (PStr ''record-1'') (payload (PStr ''home.example.com'') '''')
        (PStr ''admin@example.com'') (PStr ''secret'')]"
proof -
  have a: "configured blank_world (PStr ''example.com'') (PStr ''home.example.com'')
      (PStr ''admin@example.com'') (PStr ''secret'')"
    by (simp add: world_defs example_defs)
  have b: "snd (get_external_ip blank_world) = Inr ''''"
    by (simp add: world_defs example_defs)
  have c: "snd (get_cloudflare_dns_ip blank_world (PStr ''home.example.com'')) = Inr (PStr '''')"
    by (simp add: world_defs example_defs)
  have z: "snd (get_zone_id blank_world (PStr ''example.com'') (PStr ''admin@example.com'')
      (PStr ''secret'')) = Inr (PStr ''zone-1'')"
    by (simp add: world_defs example_defs)
  have r: "snd (get_dns_record_id blank_world (PStr ''zone-1'') (PStr ''home.example.com'')
      (PStr ''admin@example.com'') (PStr ''secret'')) = Inr (PStr ''record-1'')"
    by (simp add: world_defs example_defs)
  from empty_published_ip_is_divergent [OF a b c] a b c show ?thesis
    by (simp add: z r)
qed

subsection \<open>C10: several matching zones or records\<close>

text \<open>
  Claim C10. When the result array of a successful zone listing or record listing has two
  or more entries, \<^verbatim>\<open>get_zone_id\<close> and \<^verbatim>\<open>get_dns_record_id\<close> do not fail: each returns the
  \<^verbatim>\<open>id\<close> field of the first entry.
\<close>

theorem first_of_several_ids:
  "(zones_api w zone auth_email auth_key = Response (PDict kvs) \<and>
      truthy (case map_of kvs ''success'' of None \<Rightarrow> PNone | Some s \<Rightarrow> s) \<and>
      map_of kvs ''result'' = Some (PList (PDict first # second # others)) \<and>
      map_of first ''id'' = Some ident \<longrightarrow>
      snd (get_zone_id w zone auth_email auth_key) = Inr ident) \<and>
   (records_api w zone_id dnsrecord auth_email auth_key = Response (PDict kvs) \<and>
      truthy (case map_of kvs ''success'' of None \<Rightarrow> PNone | Some s \<Rightarrow> s) \<and>
      map_of kvs ''result'' = Some (PList (PDict first # second # others)) \<and>
      map_of first ''id'' = Some ident \<longrightarrow>
      snd (get_dns_record_id w zone_id dnsrecord auth_email auth_key) = Inr ident)"
  by (auto simp: get_zone_id_def get_dns_record_id_def)

theorem first_of_several_ids_witness:
  "snd (get_zone_id drifted_world (PStr ''example.com'') (PStr ''admin@example.com'')
     (PStr ''secret'')) = Inr (PStr ''zone-1'') \<and>
   snd (get_dns_record_id drifted_world (PStr ''zone-1'') (PStr ''home.example.com'')
     (PStr ''admin@example.com'') (PStr ''secret'')) = Inr (PStr ''record-1'')"
proof -
  let ?z = "PStr ''example.com''" and ?d = "PStr ''home.example.com''"
    and ?e = "PStr ''admin@example.com''" and ?k = "PStr ''secret''"
  let ?zones = "[(''success'', PBool True), (''errors'', PList []),
    (''result'', PList [PDict [(''id'', PStr ''zone-1'')], PDict [(''id'', PStr ''zone-2'')]])]"
  let ?records = "[(''success'', PBool True), (''errors'', PList []),
    (''result'', PList [PDict [(''id'', PStr ''record-1'')], PDict [(''id'', PStr ''record-2'')]])]"
  have a: "zones_api drifted_world ?z ?e ?k = Response (PDict ?zones) \<and>
      truthy (case map_of ?zones ''success'' of None \<Rightarrow> PNone | Some s \<Rightarrow> s) \<and>
      map_of ?zones ''result'' =
        Some (PList (PDict [(''id'', PStr ''zone-1'')] # PDict [(''id'', PStr ''zone-2'')] # [])) \<and>
      map_of [(''id'', PStr ''zone-1'')] ''id'' = Some (PStr ''zone-1'')"
    by (simp add: world_defs example_world_def envelope_def)
  have b: "records_api drifted_world (PStr ''zone-1'') ?d ?e ?k = Response (PDict ?records) \<and>
      truthy (case map_of ?records ''success'' of None \<Rightarrow> PNone | Some s \<Rightarrow> s) \<and>
      map_of ?records ''result'' =
        Some (PList (PDict [(''id'', PStr ''record-1'')] # PDict [(''id'', PStr ''record-2'')] # [])) \<and>
      map_of [(''id'', PStr ''record-1'')] ''id'' = Some (PStr ''record-1'')"
    by (simp add: world_defs example_world_def envelope_def)
  from first_of_several_ids [THEN conjunct1, THEN mp, OF a]
    first_of_several_ids [THEN conjunct2, THEN mp, OF b]
  show ?thesis
    by simp
qed

subsection \<open>C5: when the configuration is loaded and what is checked\<close>

lemma prefix_bind: "prefix (fst m) (fst (bind m f))"
  by (cases m; cases "snd m") (auto simp: bind_def split: prod.splits)

lemma missing_fields_dict:
  "missing_fields (PDict kvs) fs = Inr (filter (\<lambda>f. f \<notin> set (map fst kvs)) fs)"
  by (induction fs) simp_all

lemma load_config_dict:
  assumes "config_file w = Parsed (PDict kvs)"
  shows "snd (load_config w) =
    (if set required_fields \<subseteq> set (map fst kvs) then Inr (PDict kvs) else Inl (SystemExit 1))"
  using assms
  by (auto simp: load_config_def missing_fields_dict filter_empty_conv)

lemma load_config_loads: "filter is_load (fst (load_config w)) = [FileExists config_path]"
  by (simp add: load_config_def split: config_source.splits sum.splits)

lemma calls_no_load:
  "filter is_load (fst (get_external_ip w)) = []"
  "filter is_load (fst (get_cloudflare_dns_ip w d)) = []"
  "filter is_load (fst (get_zone_id w z e k)) = []"
  "filter is_load (fst (get_dns_record_id w zi d e k)) = []"
  "filter is_load (fst (update_dns_record w zi ri d ip e k)) = []"
  "filter is_load (caught r) = []"
  by (simp_all add: get_external_ip_def get_cloudflare_dns_ip_def get_zone_id_def
      get_dns_record_id_def update_dns_record_def caught_def Let_def
      split: http.splits sum.splits)

lemma try_update_no_load: "filter is_load (fst (try_update w z d e k)) = []"
proof (cases rule: try_update_cases [where w = w and d = d and z = z and e = e and k = k])
  case (ip_raises y)
  show ?thesis
    by (simp add: try_update_ip_raises [OF ip_raises] calls_no_load)
next
  case (dns_raises ip y)
  show ?thesis
    by (simp add: try_update_dns_raises [OF dns_raises] calls_no_load)
next
  case (in_sync ip cf)
  show ?thesis
    by (simp add: try_update_in_sync [OF in_sync] calls_no_load)
next
  case (zone_raises ip cf y)
  show ?thesis
    by (simp add: try_update_zone_raises [OF zone_raises] calls_no_load compared_def)
next
  case (record_raises ip cf zid y)
  show ?thesis
    by (simp add: try_update_record_raises [OF record_raises] calls_no_load compared_def)
next
  case (put_raises ip cf zid rid y)
  show ?thesis
    by (simp add: try_update_put_raises [OF put_raises] calls_no_load compared_def)
next
  case (written ip cf zid rid res)
  show ?thesis
    by (simp add: try_update_written [OF written] calls_no_load compared_def)
qed

lemma cycle_loads_once:
  "filter is_load (fst (check_and_update_dns w)) = [FileExists config_path]"
proof -
  from check_not_configured [of w] show ?thesis
  proof
    assume "\<exists>z d e k. configured w z d e k"
    then obtain z d e k where "configured w z d e k"
      by blast
    then show ?thesis
      by (simp add: check_trace load_config_loads try_update_no_load calls_no_load)
  next
    assume "\<exists>x. check_and_update_dns w = (fst (load_config w), Inl x)"
    then show ?thesis
      by (auto simp: load_config_loads)
  qed
qed

lemma load_failure_fatal:
  assumes "snd (load_config w) = Inl x"
  shows "check_and_update_dns w = (fst (load_config w), Inl x)"
    and "main w ticks = (Log INFO ''Logging initialized'' # fst (load_config w), Inl x)"
proof -
  from assms obtain t where "load_config w = (t, Inl x)"
    by (cases "load_config w") simp
  then show "check_and_update_dns w = (fst (load_config w), Inl x)"
    and "main w ticks = (Log INFO ''Logging initialized'' # fst (load_config w), Inl x)"
    by (simp_all add: check_and_update_dns_def main_def log_def)
qed

lemma main_starts_with_load:
  "prefix (Log INFO ''Logging initialized'' # fst (load_config w)) (fst (main w ticks))"
proof -
  have "fst (main w ticks) = Log INFO ''Logging initialized'' #
      fst (bind (load_config w) (\<lambda>config.
        bind (pure (getitem config ''dnsrecord'')) (\<lambda>dnsrecord.
        bind (log INFO ''DNS Update Scheduler started for {_config['dnsrecord']}'') (\<lambda>_.
        bind (log INFO ''Running checks every 1 minute. Press Ctrl+C to stop.'') (\<lambda>_.
        bind (check_and_update_dns w) (\<lambda>_. run_pending ticks))))))"
    by (simp add: main_def log_def)
  then show ?thesis
    by (simp add: prefix_bind)
qed

text \<open>
  Claim C5, as amended. The configuration is loaded at process startup and loaded again,
  exactly once, at the start of every reconciliation cycle. A load of a JSON object succeeds
  exactly when the four keys \<^verbatim>\<open>zone\<close>, \<^verbatim>\<open>dnsrecord\<close>, \<^verbatim>\<open>cloudflare_auth_email\<close> and
  \<^verbatim>\<open>cloudflare_auth_key\<close> are present, whatever their values; a missing key or a missing
  file ends the load with exit status 1, and a failed load ends the process, at startup
  and in any cycle.
\<close>

theorem config_loaded_in_every_cycle:
  "prefix (Log INFO ''Logging initialized'' # fst (load_config w)) (fst (main w ticks)) \<and>
   prefix (fst (load_config w)) (fst (check_and_update_dns w)) \<and>
   filter is_load (fst (check_and_update_dns w)) = [FileExists config_path] \<and>
   (config_file w = Parsed (PDict kvs) \<longrightarrow>
      snd (load_config w) =
        (if set required_fields \<subseteq> set (map fst kvs) then Inr (PDict kvs)
         else Inl (SystemExit 1))) \<and>
   (config_file w = NoFile \<longrightarrow> snd (load_config w) = Inl (SystemExit 1)) \<and>
   (snd (load_config w) = Inl x \<longrightarrow>
      snd (check_and_update_dns w) = Inl x \<and> snd (main w ticks) = Inl x)"
proof (intro conjI impI)
  show "prefix (Log INFO ''Logging initialized'' # fst (load_config w)) (fst (main w ticks))"
    by (rule main_starts_with_load)
  show "prefix (fst (load_config w)) (fst (check_and_update_dns w))"
    unfolding check_and_update_dns_def by (rule prefix_bind)
  show "filter is_load (fst (check_and_update_dns w)) = [FileExists config_path]"
    by (rule cycle_loads_once)
  show "snd (load_config w) =
      (if set required_fields \<subseteq> set (map fst kvs) then Inr (PDict kvs)
       else Inl (SystemExit 1))"
    if "config_file w = Parsed (PDict kvs)"
    using that by (rule load_config_dict)
  show "snd (load_config w) = Inl (SystemExit 1)" if "config_file w = NoFile"
    using that by (simp add: load_config_def)
  show "snd (check_and_update_dns w) = Inl x" if "snd (load_config w) = Inl x"
    using that by (simp add: load_failure_fatal)
  show "snd (main w ticks) = Inl x" if "snd (load_config w) = Inl x"
    using that by (simp add: load_failure_fatal)
qed

theorem config_loaded_in_every_cycle_witness:
  "config_file drifted_world = Parsed example_config \<and>
   snd (load_config drifted_world) = Inr example_config \<and>
   snd (load_config incomplete_config_world) = Inl (SystemExit 1) \<and>
   config_file missing_file_world = NoFile \<and>
   snd (load_config missing_file_world) = Inl (SystemExit 1) \<and>
   snd (check_and_update_dns missing_file_world) = Inl (SystemExit 1) \<and>
   snd (main missing_file_world [drifted_world]) = Inl (SystemExit 1)"
proof -
  let ?kvs = "[(''zone'', PStr ''example.com''), (''dnsrecord'', PStr ''home.example.com''),
    (''cloudflare_auth_email'', PStr ''admin@example.com''),
    (''cloudflare_auth_key'', PStr ''secret'')]"
  have a: "config_file drifted_world = Parsed (PDict ?kvs)"
    by (simp add: world_defs example_world_def example_config_def)
  have b: "config_file incomplete_config_world = Parsed (PDict [(''zone'', PStr ''example.com'')])"
    by (simp add: world_defs example_world_def)
  have c: "config_file missing_file_world = NoFile"
    by (simp add: world_defs example_world_def)
  note ta = config_loaded_in_every_cycle
    [THEN conjunct2, THEN conjunct2, THEN conjunct2, THEN conjunct1, THEN mp, OF a]
  note tb = config_loaded_in_every_cycle
    [THEN conjunct2, THEN conjunct2, THEN conjunct2, THEN conjunct1, THEN mp, OF b]
  note tc = config_loaded_in_every_cycle
    [THEN conjunct2, THEN conjunct2, THEN conjunct2, THEN conjunct2, THEN conjunct1, THEN mp,
     OF c]
  note td = config_loaded_in_every_cycle
    [THEN conjunct2, THEN conjunct2, THEN conjunct2, THEN conjunct2, THEN conjunct2, THEN mp,
     OF tc, of "[drifted_world]"]
  from ta tb tc td a c show ?thesis
    by (simp add: required_fields_def example_config_def)
qed

text \<open>
  As stated, C5 fails twice. A configuration whose four values are empty strings passes
  the validation, which tests \<^verbatim>\<open>field not in config\<close> only. And the configuration is read
  again in every cycle: a process that started with a good file exits at the first tick
  after the file has gone.
\<close>

theorem config_reloaded_unvalidated_counterexample:
  "snd (load_config blank_config_world) =
     Inr (PDict [(''zone'', PStr ''''), (''dnsrecord'', PStr ''''),
                 (''cloudflare_auth_email'', PStr ''''), (''cloudflare_auth_key'', PStr '''')]) \<and>
   snd (main drifted_world []) = Inr () \<and>
   snd (main drifted_world [missing_file_world]) = Inl (SystemExit 1)"
  by (simp add: world_defs example_defs run_defs main_def)

subsection \<open>C8: two runs in succession\<close>

lemma load_config_cong: "config_file w2 = config_file w1 \<Longrightarrow> load_config w2 = load_config w1"
  by (simp add: load_config_def)

lemma get_external_ip_cong: "checkip w2 = checkip w1 \<Longrightarrow> get_external_ip w2 = get_external_ip w1"
  by (simp add: get_external_ip_def)

lemma update_is_provider_call: "is_update ev \<Longrightarrow> is_provider_call ev"
  by (cases ev) simp_all

lemma no_provider_call_no_update:
  "filter is_provider_call t = [] \<Longrightarrow> filter is_update t = []"
  by (auto simp: filter_empty_conv dest: update_is_provider_call)

lemma no_update_member:
  "filter is_update t = [] \<Longrightarrow> RecordPut zi ri body e k \<notin> set t"
  by (auto simp: filter_empty_conv)

text \<open>An update request found in the trace of a cycle was sent by \<^verbatim>\<open>update_dns_record\<close>,
  for the record name of the configuration and the external IP of that cycle.\<close>

lemma try_update_updates:
  "filter is_update (fst (try_update w z d e k)) = [] \<or>
   (\<exists>ip zi ri. snd (get_external_ip w) = Inr ip \<and>
      filter is_update (fst (try_update w z d e k)) = [RecordPut zi ri (payload d ip) e k])"
proof (cases rule: try_update_cases [where w = w and d = d and z = z and e = e and k = k])
  case (ip_raises y)
  show ?thesis
    by (simp add: try_update_ip_raises [OF ip_raises] quiet)
next
  case (dns_raises ip y)
  show ?thesis
    by (simp add: try_update_dns_raises [OF dns_raises] quiet)
next
  case (in_sync ip cf)
  show ?thesis
    by (simp add: try_update_in_sync [OF in_sync] quiet)
next
  case (zone_raises ip cf y)
  show ?thesis
    by (simp add: try_update_zone_raises [OF zone_raises] quiet compared_def)
next
  case (record_raises ip cf zid y)
  show ?thesis
    by (simp add: try_update_record_raises [OF record_raises] quiet compared_def)
next
  case (put_raises ip cf zid rid y)
  then show ?thesis
    by (simp add: try_update_put_raises [OF put_raises] quiet compared_def)
next
  case (written ip cf zid rid res)
  then show ?thesis
    by (simp add: try_update_written [OF written] quiet compared_def)
qed

lemma cycle_update_origin:
  assumes "RecordPut zi ri body e k \<in> set (fst (check_and_update_dns w))"
  shows "\<exists>z d ip. configured w z d e k \<and> snd (get_external_ip w) = Inr ip \<and>
    body = payload d ip"
proof -
  define sent where "sent = filter is_update (fst (check_and_update_dns w))"
  have member: "RecordPut zi ri body e k \<in> set sent"
    using assms by (simp add: sent_def)
  from check_not_configured [of w] show ?thesis
  proof
    assume "\<exists>x. check_and_update_dns w = (fst (load_config w), Inl x)"
    then have "sent = []"
      by (auto simp: sent_def load_config_calls)
    with member show ?thesis
      by simp
  next
    assume "\<exists>z d e k. configured w z d e k"
    then obtain z d e' k' where c: "configured w z d e' k'"
      by blast
    then have "sent = filter is_update (fst (try_update w z d e' k'))"
      by (simp add: sent_def check_trace quiet)
    with try_update_updates [of w z d e' k']
    have "sent = [] \<or> (\<exists>ip zi' ri'. snd (get_external_ip w) = Inr ip \<and>
        sent = [RecordPut zi' ri' (payload d ip) e' k'])"
      by simp
    with member c show ?thesis
      by auto blast
  qed
qed

text \<open>
  Claim C8, as amended. Let a first run send an update, and let a second run follow in
  which the configuration and the answer of the IP service are unchanged and the DNS
  lookup of the updated name returns the content that was written. If that content is
  not empty, the second run sends no request to the provider at all, and the two runs
  together send the updates of the first run only.
\<close>

theorem second_run_after_write_is_noop:
  assumes "RecordPut zone_id record_id body auth_email auth_key
      \<in> set (fst (check_and_update_dns w1))"
    and "config_file w2 = config_file w1"
    and "checkip w2 = checkip w1"
    and "getitem body ''name'' = Inr name"
    and "getitem body ''content'' = Inr content"
    and "snd (get_cloudflare_dns_ip w2 name) = Inr content"
    and "truthy content"
  shows "filter is_provider_call (fst (check_and_update_dns w2)) = [] \<and>
    snd (check_and_update_dns w2) = Inr () \<and>
    filter is_update (fst (run_pending [w1, w2])) =
      filter is_update (fst (check_and_update_dns w1))"
proof -
  from cycle_update_origin [OF assms(1)] obtain z d ip
    where c1: "configured w1 z d auth_email auth_key"
      and ip1: "snd (get_external_ip w1) = Inr ip"
      and body: "body = payload d ip"
    by blast
  have c2: "configured w2 z d auth_email auth_key"
    using c1 by (simp add: configured_def load_config_cong [OF assms(2)])
  have ip2: "snd (get_external_ip w2) = Inr ip"
    using ip1 by (simp add: get_external_ip_cong [OF assms(3)])
  have name: "name = d" and content: "content = PStr ip"
    using assms(4) assms(5) by (simp_all add: body payload_def)
  have dns: "snd (get_cloudflare_dns_ip w2 d) = Inr (PStr ip)"
    using assms(6) by (simp add: name content)
  have sync: "truthy (PStr ip) \<and> PStr ip = PStr ip"
    using assms(7) by (simp add: content)
  note run = try_update_in_sync [OF ip2 dns sync, of z auth_email auth_key]
  have quiet2: "filter is_provider_call (fst (check_and_update_dns w2)) = []"
    by (simp add: check_trace [OF c2] run quiet caught_def)
  then have no_update: "filter is_update (fst (check_and_update_dns w2)) = []"
    by (rule no_provider_call_no_update)
  have "check_and_update_dns w1 = (fst (check_and_update_dns w1), Inr ())"
    using check_result [OF c1] by (rule io_eq)
  then have "fst (run_pending [w1, w2]) =
      fst (check_and_update_dns w1) @ fst (bind (check_and_update_dns w2) (\<lambda>_. ([], Inr ())))"
    by (metis bind_Inr fst_conv run_pending.simps)
  moreover have "check_and_update_dns w2 = (fst (check_and_update_dns w2), Inr ())"
    using check_result [OF c2] by (rule io_eq)
  then have "fst (bind (check_and_update_dns w2) (\<lambda>_. ([], Inr ()))) =
      fst (check_and_update_dns w2)"
    by (metis append_Nil2 bind_Inr fst_conv)
  ultimately show ?thesis
    by (simp add: quiet2 no_update check_result [OF c2])
qed

theorem second_run_after_write_is_noop_witness:
  "RecordPut (PStr ''zone-1'') (PStr ''record-1'') (payload (PStr ''home.example.com'') ''5.6.7.8'')
     (PStr ''admin@example.com'') (PStr ''secret'')
     \<in> set (fst (check_and_update_dns drifted_world)) \<and>
   config_file (example_world (''5.6.7.8'' @ [CHR 0x0A]) (Response (doh_answer ''5.6.7.8''))) =
     config_file drifted_world \<and>
   checkip (example_world (''5.6.7.8'' @ [CHR 0x0A]) (Response (doh_answer ''5.6.7.8''))) =
     checkip drifted_world \<and>
   snd (get_cloudflare_dns_ip
     (example_world (''5.6.7.8'' @ [CHR 0x0A]) (Response (doh_answer ''5.6.7.8'')))
     (PStr ''home.example.com'')) = Inr (PStr ''5.6.7.8'') \<and>
   filter is_provider_call (fst (check_and_update_dns
     (example_world (''5.6.7.8'' @ [CHR 0x0A]) (Response (doh_answer ''5.6.7.8''))))) = [] \<and>
   snd (check_and_update_dns
     (example_world (''5.6.7.8'' @ [CHR 0x0A]) (Response (doh_answer ''5.6.7.8'')))) = Inr () \<and>
   filter is_update (fst (run_pending [drifted_world,
     example_world (''5.6.7.8'' @ [CHR 0x0A]) (Response (doh_answer ''5.6.7.8''))])) =
     filter is_update (fst (check_and_update_dns drifted_world))"
proof -
  let ?w2 = "example_world (''5.6.7.8'' @ [CHR 0x0A]) (Response (doh_answer ''5.6.7.8''))"
  let ?d = "PStr ''home.example.com''"
  have a: "RecordPut (PStr ''zone-1'') (PStr ''record-1'') (payload ?d ''5.6.7.8'')
      (PStr ''admin@example.com'') (PStr ''secret'')
      \<in> set (fst (check_and_update_dns drifted_world))"
    by (simp add: world_defs example_defs run_defs)
  have b: "config_file ?w2 = config_file drifted_world"
    by (simp add: world_defs example_world_def)
  have c: "checkip ?w2 = checkip drifted_world"
    by (simp add: world_defs example_world_def)
  have d: "getitem (payload ?d ''5.6.7.8'') ''name'' = Inr ?d"
    by (simp add: payload_def)
  have e: "getitem (payload ?d ''5.6.7.8'') ''content'' = Inr (PStr ''5.6.7.8'')"
    by (simp add: payload_def)
  have f: "snd (get_cloudflare_dns_ip ?w2 ?d) = Inr (PStr ''5.6.7.8'')"
    by (simp add: example_defs)
  have g: "truthy (PStr ''5.6.7.8'')"
    by simp
  from second_run_after_write_is_noop [OF a b c d e f g] a b c f show ?thesis
    by simp
qed

text \<open>
  As stated, without excluding the empty string, C8 fails: when the IP service answers the
  empty string the first run writes it, the DNS lookup of the second run returns it, and
  the second run, finding \<^verbatim>\<open>cf_ip\<close> falsy, writes it again.
\<close>

theorem empty_ip_rewritten_counterexample:
  "filter is_update (fst (check_and_update_dns blank_ip_world)) =
     [RecordPut (PStr ''zone-1'') (PStr ''record-1'') (payload (PStr ''home.example.com'') '''')
        (PStr ''admin@example.com'') (PStr ''secret'')] \<and>
   config_file blank_world = config_file blank_ip_world \<and>
   checkip blank_world = checkip blank_ip_world \<and>
   snd (get_external_ip blank_world) = Inr '''' \<and>
   snd (get_cloudflare_dns_ip blank_world (PStr ''home.example.com'')) = Inr (PStr '''') \<and>
   filter is_update (fst (check_and_update_dns blank_world)) =
     [RecordPut (PStr ''zone-1'') (PStr ''record-1'') (payload (PStr ''home.example.com'') '''')
        (PStr ''admin@example.com'') (PStr ''secret'')]"
  by (simp add: world_defs example_defs run_defs)

end
